theory Spec2Isabelle
  imports Main "HOL-Library.Word" "HOL-Library.Product_Lexorder"
begin

section \<open>SQL values\<close>

text \<open>
  The repository's ingestion logic that is present in the sources is SQL: the migrations
  that create the tables \<open>politicians\<close>, \<open>disclosures\<close> and \<open>trades\<close> with their
  constraints, and the PL/pgSQL functions of the PTR ingestion setup migration
  (\<open>generate_trade_row_hash\<close>, \<open>update_trade_row_hash\<close>, \<open>find_duplicate_trades\<close>,
  \<open>cleanup_duplicate_trades\<close>).

  A nullable SQL value is an \<open>option\<close> (\<open>None\<close> is NULL). \<open>TEXT\<close> is a \<open>string\<close>, a list
  of 8-bit characters: the bytes of the text in the database encoding. \<open>UUID\<close> values are
  natural numbers, \<open>TIMESTAMPTZ\<close> values are instants counted as natural numbers.
\<close>

type_synonym uuid = nat
type_synonym timestamptz = nat
type_synonym byte = "8 word"
type_synonym bytea = "byte list"

text \<open>
  \<open>digest(data, type)\<close> is pgcrypto's: it is not code of the repository and is a
  parameter of every definition that calls it. It takes the text to hash and the
  algorithm's name and returns the binary digest.
\<close>

type_synonym digest_fn = "string \<Rightarrow> string \<Rightarrow> bytea"

datatype sql_error =
    not_null_violation string
  | check_violation string
  | unique_violation string
  | foreign_key_violation string
  | duplicate_column string

text \<open>\<open>COALESCE(x, y)\<close>: the first argument that is not NULL.\<close>

definition coalesce :: "'a option \<Rightarrow> 'a option \<Rightarrow> 'a option" where
  "coalesce x y = (case x of None \<Rightarrow> y | Some v \<Rightarrow> Some v)"

text \<open>\<open>x || y\<close> on text: NULL when either operand is NULL.\<close>

definition sql_concat :: "string option \<Rightarrow> string option \<Rightarrow> string option" where
  "sql_concat x y =
     (case x of None \<Rightarrow> None
      | Some a \<Rightarrow> (case y of None \<Rightarrow> None | Some b \<Rightarrow> Some (a @ b)))"

text \<open>
  A \<open>DATE\<close> and its cast to text, \<open>d::TEXT\<close>, in the ISO date style (PostgreSQL's
  default): \<open>YYYY-MM-DD\<close>, the year padded to four digits, month and day to two.
\<close>

record date =
  year :: nat
  month :: nat
  day :: nat

definition digit_char :: "nat \<Rightarrow> char" where
  "digit_char n = ''0123456789'' ! n"

fun decimal :: "nat \<Rightarrow> string" where
  "decimal n = (if n < 10 then [digit_char n] else decimal (n div 10) @ [digit_char (n mod 10)])"

definition lpad0 :: "nat \<Rightarrow> string \<Rightarrow> string" where
  "lpad0 w s = replicate (w - length s) (CHR ''0'') @ s"

definition date_to_text :: "date \<Rightarrow> string" where
  "date_to_text d =
     lpad0 4 (decimal (year d)) @ ''-'' @ lpad0 2 (decimal (month d)) @ ''-'' @
     lpad0 2 (decimal (day d))"

text \<open>\<open>encode(data, 'hex')\<close>: two lower-case hexadecimal digits per byte.\<close>

definition hex_digit :: "nat \<Rightarrow> char" where
  "hex_digit n = ''0123456789abcdef'' ! n"

definition hex_byte :: "byte \<Rightarrow> string" where
  "hex_byte b = [hex_digit (unat b div 16), hex_digit (unat b mod 16)]"

definition encode_hex :: "bytea \<Rightarrow> string" where
  "encode_hex bs = concat (map hex_byte bs)"


text \<open>\<open>digest\<close> and \<open>encode\<close> are strict: a NULL argument gives NULL.\<close>

definition sql_digest :: "digest_fn \<Rightarrow> string option \<Rightarrow> string \<Rightarrow> bytea option" where
  "sql_digest dg data alg = map_option (\<lambda>m. dg m alg) data"

definition sql_encode_hex :: "bytea option \<Rightarrow> string option" where
  "sql_encode_hex data = map_option encode_hex data"

section \<open>The content hash of a trade\<close>

text \<open>
  \<open>generate_trade_row_hash\<close> of the PTR ingestion setup migration:
  \<^verbatim>\<open>
  RETURN encode(digest(
      COALESCE(p_source, '') || '|' || COALESCE(p_filing_id, '') || '|' ||
      COALESCE(p_asset_description, '') || '|' || COALESCE(p_ticker, '') || '|' ||
      COALESCE(p_transaction_type, '') || '|' ||
      COALESCE(p_transaction_date::TEXT, '') || '|' || COALESCE(p_amount_range, ''),
      'sha256'), 'hex');
  \<close>
  \<open>||\<close> associates to the left. \<open>row_hash_message\<close> is the text handed to \<open>digest\<close>.
\<close>

definition row_hash_message ::
  "string option \<Rightarrow> string option \<Rightarrow> string option \<Rightarrow> string option \<Rightarrow> string option \<Rightarrow>
   date option \<Rightarrow> string option \<Rightarrow> string option" where
  "row_hash_message p_source p_filing_id p_asset_description p_ticker p_transaction_type
     p_transaction_date p_amount_range =
     sql_concat (sql_concat (sql_concat (sql_concat (sql_concat (sql_concat
       (sql_concat (sql_concat (sql_concat (sql_concat (sql_concat (sql_concat
         (coalesce p_source (Some ''''))
         (Some ''|'')) (coalesce p_filing_id (Some '''')))
         (Some ''|'')) (coalesce p_asset_description (Some '''')))
         (Some ''|'')) (coalesce p_ticker (Some '''')))
         (Some ''|'')) (coalesce p_transaction_type (Some '''')))
         (Some ''|'')) (coalesce (map_option date_to_text p_transaction_date) (Some '''')))
         (Some ''|'')) (coalesce p_amount_range (Some ''''))"

definition generate_trade_row_hash ::
  "digest_fn \<Rightarrow> string option \<Rightarrow> string option \<Rightarrow> string option \<Rightarrow> string option \<Rightarrow>
   string option \<Rightarrow> date option \<Rightarrow> string option \<Rightarrow> string option" where
  "generate_trade_row_hash dg p_source p_filing_id p_asset_description p_ticker
     p_transaction_type p_transaction_date p_amount_range =
     sql_encode_hex (sql_digest dg
       (row_hash_message p_source p_filing_id p_asset_description p_ticker p_transaction_type
          p_transaction_date p_amount_range) ''sha256'')"

text \<open>
  The rule as the specification words it, for comparison with the SQL: the seven canonical
  fields, each absent field replaced by the empty string, joined with a literal pipe, the
  digest of the joined text hex-encoded. The transaction date is taken in its ISO form.
  The application-side normalizer (Python, not among the sources) is specified to follow
  this rule.
\<close>

definition or_empty :: "string option \<Rightarrow> string" where
  "or_empty x = (case x of None \<Rightarrow> [] | Some s \<Rightarrow> s)"

fun pipe_join :: "string list \<Rightarrow> string" where
  "pipe_join [] = []"
| "pipe_join [x] = x"
| "pipe_join (x # y # ys) = x @ ''|'' @ pipe_join (y # ys)"

definition canonical_fields ::
  "string option \<Rightarrow> string option \<Rightarrow> string option \<Rightarrow> string option \<Rightarrow> string option \<Rightarrow>
   string option \<Rightarrow> string option \<Rightarrow> string list" where
  "canonical_fields src doc asset tick side iso_date amount =
     map or_empty [src, doc, asset, tick, side, iso_date, amount]"

definition spec_row_hash ::
  "digest_fn \<Rightarrow> string option \<Rightarrow> string option \<Rightarrow> string option \<Rightarrow> string option \<Rightarrow>
   string option \<Rightarrow> string option \<Rightarrow> string option \<Rightarrow> string" where
  "spec_row_hash dg src doc asset tick side iso_date amount =
     encode_hex (dg (pipe_join (canonical_fields src doc asset tick side iso_date amount))
       ''sha256'')"

section \<open>The trades table of the PTR ingestion setup\<close>

text \<open>
  The columns every version of the \<open>trades\<close> table has and that the duplicate queries
  read: \<open>id\<close> (the primary key; named \<open>trade_id\<close> here), \<open>row_hash\<close> and \<open>created_at\<close>.
  The versions of the table extend this record with their other columns.
\<close>

record trade_row =
  trade_id :: uuid
  row_hash :: "string option"
  created_at :: "timestamptz option"

text \<open>
  The table as the PTR ingestion setup migration leaves it, with the columns its functions
  read or write. The migration adds \<open>row_hash\<close>, \<open>source\<close> (default \<open>'manual'\<close>, then
  NOT NULL, with the check constraint \<open>check_trades_source\<close>), \<open>filing_id\<close> and \<open>notes\<close>,
  and the unique index \<open>idx_trades_row_hash\<close> on \<open>row_hash\<close> restricted to the rows
  \<open>WHERE row_hash IS NOT NULL\<close>. Columns of the table that no function of the migration
  reads (\<open>member_id\<close>, \<open>disclosure_date\<close>, \<open>asset_type\<close>, the amounts, \<open>notes\<close>,
  \<open>updated_at\<close>) are left out.
\<close>

record ptr_trade = trade_row +
  source :: "string option"
  filing_id :: "string option"
  asset_description :: "string option"
  ticker :: "string option"
  transaction_type :: "string option"
  transaction_date :: "date option"
  amount_range :: "string option"

text \<open>
  Three-valued logic: a comparison with NULL is NULL, \<open>AND\<close> is false as soon as one
  operand is false, and \<open>IF c THEN\<close> runs its branch only when \<open>c\<close> is true.
\<close>

definition sql_neq :: "'a option \<Rightarrow> 'a option \<Rightarrow> bool option" where
  "sql_neq x y =
     (case x of None \<Rightarrow> None
      | Some a \<Rightarrow> (case y of None \<Rightarrow> None | Some b \<Rightarrow> Some (a \<noteq> b)))"

definition sql_is_not_null :: "'a option \<Rightarrow> bool option" where
  "sql_is_not_null x = Some (x \<noteq> None)"

definition sql_and :: "bool option \<Rightarrow> bool option \<Rightarrow> bool option" where
  "sql_and x y =
     (if x = Some False \<or> y = Some False then Some False
      else if x = Some True \<and> y = Some True then Some True
      else None)"

definition sql_is_true :: "bool option \<Rightarrow> bool" where
  "sql_is_true c = (c = Some True)"

text \<open>
  The trigger function \<open>update_trade_row_hash\<close>, run \<open>BEFORE INSERT OR UPDATE\<close> for each
  row:
  \<^verbatim>\<open>
  IF NEW.source != 'manual' AND NEW.filing_id IS NOT NULL THEN
      NEW.row_hash = public.generate_trade_row_hash(NEW.source, NEW.filing_id,
          NEW.asset_description, NEW.ticker, NEW.transaction_type,
          NEW.transaction_date, NEW.amount_range);
  END IF;
  RETURN NEW;
  \<close>
\<close>

definition update_trade_row_hash :: "digest_fn \<Rightarrow> ptr_trade \<Rightarrow> ptr_trade" where
  "update_trade_row_hash dg new =
     (if sql_is_true (sql_and (sql_neq (source new) (Some ''manual''))
                              (sql_is_not_null (filing_id new)))
      then new\<lparr>row_hash := generate_trade_row_hash dg (source new) (filing_id new)
                  (asset_description new) (ticker new) (transaction_type new)
                  (transaction_date new) (amount_range new)\<rparr>
      else new)"

text \<open>
  \<open>INSERT INTO trades\<close>: the trigger first, then the constraints on the row it returns.
  The primary key and the constraints the migration declares are checked: \<open>source\<close> NOT
  NULL, \<open>check_trades_source\<close>, and the partial unique index, which only holds the rows
  whose \<open>row_hash\<close> is not NULL. A violation leaves the table as it was.
\<close>

definition allowed_sources :: "string list" where
  "allowed_sources = [''manual'', ''house_clerk'', ''senate_clerk'', ''import'']"

definition insert_ptr_trade ::
  "digest_fn \<Rightarrow> ptr_trade list \<Rightarrow> ptr_trade \<Rightarrow> sql_error + ptr_trade list" where
  "insert_ptr_trade dg tbl new =
     (let row = update_trade_row_hash dg new in
      case source row of
        None \<Rightarrow> Inl (not_null_violation ''source'')
      | Some s \<Rightarrow>
          if s \<notin> set allowed_sources then Inl (check_violation ''check_trades_source'')
          else if trade_id row \<in> set (map trade_id tbl) then Inl (unique_violation ''trades_pkey'')
          else if row_hash row \<noteq> None \<and> row_hash row \<in> set (map row_hash tbl)
            then Inl (unique_violation ''idx_trades_row_hash'')
          else Inr (tbl @ [row]))"

section \<open>Finding and cleaning up duplicate trades\<close>

text \<open>
  The rows of a hash group, and the hashes \<open>GROUP BY t.row_hash\<close> ranges over once
  \<open>WHERE t.row_hash IS NOT NULL\<close> has been applied. SQL leaves the order of the groups
  open; here they come in the order of their first row.
\<close>

definition hash_group :: "string \<Rightarrow> ('a trade_row_scheme) list \<Rightarrow> ('a trade_row_scheme) list" where
  "hash_group h ts = filter (\<lambda>t. row_hash t = Some h) ts"

definition grouped_hashes :: "('a trade_row_scheme) list \<Rightarrow> string list" where
  "grouped_hashes ts = remdups (List.map_filter row_hash ts)"

text \<open>
  \<open>ORDER BY t.created_at\<close> is ascending with NULLs last. Rows with equal \<open>created_at\<close>
  may come in any order in SQL; the sort here is stable and keeps the table's order.
\<close>

definition created_key :: "'a trade_row_scheme \<Rightarrow> nat \<times> nat" where
  "created_key t = (case created_at t of None \<Rightarrow> (1, 0) | Some ts \<Rightarrow> (0, ts))"

definition order_by_created_at :: "('a trade_row_scheme) list \<Rightarrow> ('a trade_row_scheme) list" where
  "order_by_created_at ts = sort_key created_key ts"

text \<open>
  \<open>find_duplicate_trades()\<close>:
  \<^verbatim>\<open>
  SELECT t.row_hash, COUNT(*) as duplicate_count, ARRAY_AGG(t.id) as trade_ids
  FROM public.trades t WHERE t.row_hash IS NOT NULL
  GROUP BY t.row_hash HAVING COUNT(*) > 1 ORDER BY COUNT(*) DESC;
  \<close>
\<close>

record duplicate_trades_row =
  found_row_hash :: string
  duplicate_count :: int
  trade_ids :: "uuid list"

definition find_duplicate_trades :: "('a trade_row_scheme) list \<Rightarrow> duplicate_trades_row list" where
  "find_duplicate_trades ts =
     sort_key (\<lambda>r. - duplicate_count r)
       (map (\<lambda>h. \<lparr>found_row_hash = h, duplicate_count = int (length (hash_group h ts)),
                  trade_ids = map trade_id (hash_group h ts)\<rparr>)
          (filter (\<lambda>h. 1 < length (hash_group h ts)) (grouped_hashes ts)))"

text \<open>
  The query \<open>cleanup_duplicate_trades\<close> loops over, evaluated once before the loop:
  \<^verbatim>\<open>
  SELECT t.row_hash, COUNT(*) as cnt, ARRAY_AGG(t.id ORDER BY t.created_at) as all_ids
  FROM public.trades t WHERE t.row_hash IS NOT NULL
  GROUP BY t.row_hash HAVING COUNT(*) > 1
  \<close>
\<close>

record duplicate_record =
  dup_row_hash :: string
  cnt :: int
  all_ids :: "uuid list"

definition duplicate_records :: "('a trade_row_scheme) list \<Rightarrow> duplicate_record list" where
  "duplicate_records ts =
     map (\<lambda>h. \<lparr>dup_row_hash = h, cnt = int (length (hash_group h ts)),
                all_ids = map trade_id (order_by_created_at (hash_group h ts))\<rparr>)
       (filter (\<lambda>h. 1 < length (hash_group h ts)) (grouped_hashes ts))"

text \<open>
  \<open>array_length(a, 1)\<close> is NULL for an empty array; \<open>+\<close> is NULL when an operand is.
\<close>

definition array_length :: "'a list \<Rightarrow> int option" where
  "array_length xs = (if xs = [] then None else Some (int (length xs)))"

definition sql_plus :: "int option \<Rightarrow> int option \<Rightarrow> int option" where
  "sql_plus x y =
     (case x of None \<Rightarrow> None
      | Some a \<Rightarrow> (case y of None \<Rightarrow> None | Some b \<Rightarrow> Some (a + b)))"

text \<open>The rows \<open>cleanup_duplicate_trades\<close> returns, and the state of its loop.\<close>

record cleanup_row =
  action :: string
  reported_row_hash :: string
  duplicates_found :: int
  duplicates_removed :: "int option"

record 'r cleanup_state =
  remaining :: "'r list"
  returned :: "cleanup_row list"
  deleted_count :: "int option"
  total_found :: int

text \<open>
  The body of the loop:
  \<^verbatim>\<open>
  total_found := total_found + duplicate_record.cnt - 1;
  ids_to_delete := duplicate_record.all_ids[2:];
  IF NOT dry_run THEN
      DELETE FROM public.trades WHERE id = ANY(ids_to_delete);
      deleted_count := deleted_count + array_length(ids_to_delete, 1);
  END IF;
  RETURN QUERY SELECT
      CASE WHEN dry_run THEN 'WOULD DELETE' ELSE 'DELETED' END,
      duplicate_record.row_hash,
      duplicate_record.cnt::INTEGER - 1,
      CASE WHEN dry_run THEN 0 ELSE array_length(ids_to_delete, 1) END;
  \<close>
\<close>

definition cleanup_step ::
  "bool \<Rightarrow> ('a trade_row_scheme) cleanup_state \<Rightarrow> duplicate_record \<Rightarrow>
   ('a trade_row_scheme) cleanup_state" where
  "cleanup_step dry_run st duplicate_record =
     (let ids_to_delete = drop 1 (all_ids duplicate_record);
          st1 = (if \<not> dry_run
                 then st\<lparr>remaining := filter (\<lambda>t. trade_id t \<notin> set ids_to_delete) (remaining st),
                         deleted_count := sql_plus (deleted_count st) (array_length ids_to_delete)\<rparr>
                 else st)
      in st1\<lparr>total_found := total_found st + cnt duplicate_record - 1,
             returned := returned st @
               [\<lparr>action = (if dry_run then ''WOULD DELETE'' else ''DELETED''),
                 reported_row_hash = dup_row_hash duplicate_record,
                 duplicates_found = cnt duplicate_record - 1,
                 duplicates_removed =
                   (if dry_run then Some 0 else array_length ids_to_delete)\<rparr>]\<rparr>)"

text \<open>
  \<open>cleanup_duplicate_trades(dry_run)\<close>: the loop, then the summary row. The result is the
  table after the call and the rows returned.
\<close>

definition cleanup_duplicate_trades ::
  "bool \<Rightarrow> ('a trade_row_scheme) list \<Rightarrow> ('a trade_row_scheme) list \<times> cleanup_row list" where
  "cleanup_duplicate_trades dry_run ts =
     (let st = foldl (cleanup_step dry_run)
                 \<lparr>remaining = ts, returned = [], deleted_count = Some 0, total_found = 0\<rparr>
                 (duplicate_records ts)
      in (remaining st,
          returned st @
            [\<lparr>action = (if dry_run then ''DRY RUN SUMMARY'' else ''CLEANUP SUMMARY''),
              reported_row_hash = '''',
              duplicates_found = total_found st,
              duplicates_removed = deleted_count st\<rparr>]))"

text \<open>
  A call of the function: \<open>dry_run BOOLEAN DEFAULT true\<close>, so a call that leaves the
  argument out (\<open>None\<close>) runs with \<open>dry_run = true\<close>.
\<close>

definition call_cleanup_duplicate_trades ::
  "bool option \<Rightarrow> ('a trade_row_scheme) list \<Rightarrow> ('a trade_row_scheme) list \<times> cleanup_row list" where
  "call_cleanup_duplicate_trades arg ts =
     cleanup_duplicate_trades (case arg of None \<Rightarrow> True | Some b \<Rightarrow> b) ts"

text \<open>
  A row is in a duplicate group when its \<open>row_hash\<close> is not NULL and more than one row of
  the table carries it. \<open>deleted_ids\<close> collects the \<open>ids_to_delete\<close> of all the loop's
  iterations.
\<close>

definition in_duplicate_group :: "('a trade_row_scheme) list \<Rightarrow> 'a trade_row_scheme \<Rightarrow> bool" where
  "in_duplicate_group ts t =
     (case row_hash t of None \<Rightarrow> False | Some h \<Rightarrow> 1 < length (hash_group h ts))"

definition deleted_ids :: "('a trade_row_scheme) list \<Rightarrow> uuid list" where
  "deleted_ids ts = concat (map (\<lambda>d. drop 1 (all_ids d)) (duplicate_records ts))"

text \<open>
  The statements the migration gives the ingestion pipeline and its operators for the
  \<open>trades\<close> table: an insert (through the trigger), \<open>find_duplicate_trades()\<close> and
  \<open>cleanup_duplicate_trades(dry_run)\<close>, the argument given or left out. Each statement is
  run on its own; one that fails with a violation changes nothing.
\<close>

datatype trades_statement =
    Insert ptr_trade
  | Find_duplicates
  | Cleanup "bool option"

definition run_statement :: "digest_fn \<Rightarrow> ptr_trade list \<Rightarrow> trades_statement \<Rightarrow> ptr_trade list" where
  "run_statement dg tbl stmt =
     (case stmt of
        Insert new \<Rightarrow> (case insert_ptr_trade dg tbl new of Inl e \<Rightarrow> tbl | Inr tbl' \<Rightarrow> tbl')
      | Find_duplicates \<Rightarrow> tbl
      | Cleanup arg \<Rightarrow> fst (call_cleanup_duplicate_trades arg tbl))"



section \<open>The fresh schema: politicians, disclosures, trades\<close>

text \<open>
  The tables as the fresh-schema migration creates them and the later migrations leave
  them. A column declared NOT NULL has a type without NULL. Primary keys are the \<open>id\<close>
  columns; they are named \<open>p_id\<close>, \<open>d_id\<close> and \<open>trade_id\<close> here, and the columns
  \<open>politician_id\<close> and \<open>source\<close> of \<open>disclosures\<close> are \<open>d_politician_id\<close> and \<open>d_source\<close>.
  The JSON column \<open>external_ids\<close> and the timestamps of \<open>politicians\<close> and
  \<open>disclosures\<close>, which no constraint mentions, are left out; \<open>prefix\<close> and \<open>suffix\<close> are
  \<open>name_prefix\<close> and \<open>name_suffix\<close>.

  \<^verbatim>\<open>
  CREATE TABLE politicians (
      id UUID PRIMARY KEY DEFAULT gen_random_uuid(),
      full_name TEXT NOT NULL, first_name TEXT, last_name TEXT,
      chamber TEXT CHECK (chamber IN ('house', 'senate')),
      state TEXT, district TEXT, party TEXT, bioguide_id TEXT UNIQUE, ...);
  \<close>
  There is no unique constraint on \<open>(full_name, state, district)\<close>, in this migration or
  in any other.
\<close>

record politician =
  p_id :: uuid
  full_name :: string
  name_prefix :: "string option"
  first_name :: "string option"
  last_name :: "string option"
  name_suffix :: "string option"
  chamber :: "string option"
  state :: "string option"
  district :: "string option"
  party :: "string option"
  bioguide_id :: "string option"

text \<open>
  \<^verbatim>\<open>
  CREATE TABLE disclosures (
      id UUID PRIMARY KEY DEFAULT gen_random_uuid(),
      politician_id UUID NOT NULL REFERENCES politicians(id) ON DELETE CASCADE,
      source TEXT NOT NULL DEFAULT 'house_clerk',
      report_id TEXT NOT NULL, filed_date TIMESTAMPTZ, raw JSONB DEFAULT '{}', ...
      UNIQUE(politician_id, source, report_id));
  \<close>
  Later migrations add \<open>filing_type\<close> with
  \<open>CHECK (filing_type IS NULL OR filing_type IN ('P','A','C','D','O','X','W'))\<close>, rename
  \<open>report_id\<close> to \<open>doc_id\<close> and re-create the unique constraint as
  \<open>disclosures_politician_id_source_doc_id_key UNIQUE(politician_id, source, doc_id)\<close>.
  \<open>filed_date\<close> is kept as the calendar date of the timestamp.
\<close>

record disclosure =
  d_id :: uuid
  d_politician_id :: uuid
  d_source :: string
  doc_id :: string
  filing_type :: "string option"
  filed_date :: "date option"
  raw :: "(string \<times> string) list"

text \<open>
  \<^verbatim>\<open>
  CREATE TABLE trades (
      id UUID PRIMARY KEY DEFAULT gen_random_uuid(),
      disclosure_id UUID NOT NULL REFERENCES disclosures(id) ON DELETE CASCADE,
      politician_id UUID NOT NULL REFERENCES politicians(id) ON DELETE CASCADE,
      transaction_date TIMESTAMPTZ, published_at TIMESTAMPTZ, ticker TEXT,
      asset_name TEXT NOT NULL,
      side TEXT CHECK (side IN ('buy', 'sell') OR side IS NULL),
      amount_range TEXT, notes TEXT, row_hash TEXT NOT NULL UNIQUE,
      created_at TIMESTAMPTZ DEFAULT NOW(), updated_at TIMESTAMPTZ DEFAULT NOW());
  \<close>
  \<open>row_hash\<close> stays an optional value in the row, as in every version of the table; the
  insert rejects NULL.
\<close>

record trade = trade_row +
  disclosure_id :: uuid
  politician_id :: uuid
  transaction_date :: "date option"
  published_at :: "timestamptz option"
  ticker :: "string option"
  asset_name :: string
  side :: "string option"
  amount_range :: "string option"
  trade_notes :: "string option"

record db =
  politicians :: "politician list"
  disclosures :: "disclosure list"
  trades :: "trade list"

definition empty_db :: db where
  "empty_db = \<lparr>politicians = [], disclosures = [], trades = []\<rparr>"

definition politician_key :: "politician \<Rightarrow> string \<times> string option \<times> string option" where
  "politician_key p = (full_name p, state p, district p)"

definition disclosure_key :: "disclosure \<Rightarrow> uuid \<times> string \<times> string" where
  "disclosure_key d = (d_politician_id d, d_source d, doc_id d)"

text \<open>
  The inserts. Check constraints are tested first, then the unique indexes (the primary
  key before the others), then the foreign keys. A violation is an error and leaves the
  database as it was.
\<close>

definition insert_politician :: "db \<Rightarrow> politician \<Rightarrow> sql_error + db" where
  "insert_politician d p =
     (if chamber p \<noteq> None \<and> chamber p \<notin> {Some ''house'', Some ''senate''}
        then Inl (check_violation ''politicians_chamber_check'')
      else if p_id p \<in> set (map p_id (politicians d))
        then Inl (unique_violation ''politicians_pkey'')
      else if bioguide_id p \<noteq> None \<and> bioguide_id p \<in> set (map bioguide_id (politicians d))
        then Inl (unique_violation ''politicians_bioguide_id_key'')
      else Inr (d\<lparr>politicians := politicians d @ [p]\<rparr>))"

definition filing_type_codes :: "string list" where
  "filing_type_codes = [''P'', ''A'', ''C'', ''D'', ''O'', ''X'', ''W'']"

definition insert_disclosure :: "db \<Rightarrow> disclosure \<Rightarrow> sql_error + db" where
  "insert_disclosure d x =
     (if filing_type x \<noteq> None \<and> filing_type x \<notin> Some ` set filing_type_codes
        then Inl (check_violation ''check_filing_type'')
      else if d_id x \<in> set (map d_id (disclosures d))
        then Inl (unique_violation ''disclosures_pkey'')
      else if disclosure_key x \<in> set (map disclosure_key (disclosures d))
        then Inl (unique_violation ''disclosures_politician_id_source_doc_id_key'')
      else if d_politician_id x \<notin> set (map p_id (politicians d))
        then Inl (foreign_key_violation ''disclosures_politician_id_fkey'')
      else Inr (d\<lparr>disclosures := disclosures d @ [x]\<rparr>))"

definition insert_trade :: "db \<Rightarrow> trade \<Rightarrow> sql_error + db" where
  "insert_trade d t =
     (if row_hash t = None then Inl (not_null_violation ''row_hash'')
      else if side t \<noteq> None \<and> side t \<notin> {Some ''buy'', Some ''sell''}
        then Inl (check_violation ''trades_side_check'')
      else if trade_id t \<in> set (map trade_id (trades d))
        then Inl (unique_violation ''trades_pkey'')
      else if row_hash t \<in> set (map row_hash (trades d))
        then Inl (unique_violation ''trades_row_hash_key'')
      else if disclosure_id t \<notin> set (map d_id (disclosures d))
        then Inl (foreign_key_violation ''trades_disclosure_id_fkey'')
      else if politician_id t \<notin> set (map p_id (politicians d))
        then Inl (foreign_key_violation ''trades_politician_id_fkey'')
      else Inr (d\<lparr>trades := trades d @ [t]\<rparr>))"

text \<open>
  The statements that write to the three tables: the inserts, and the duplicate cleanup,
  which stays defined when the tables are re-created. Each statement runs on its own; one
  that fails changes nothing.
\<close>

datatype db_statement =
    Insert_politician politician
  | Insert_disclosure disclosure
  | Insert_trade trade
  | Cleanup_trades "bool option"

definition or_unchanged :: "db \<Rightarrow> sql_error + db \<Rightarrow> db" where
  "or_unchanged d r = (case r of Inl e \<Rightarrow> d | Inr d' \<Rightarrow> d')"

definition run_db_statement :: "db \<Rightarrow> db_statement \<Rightarrow> db" where
  "run_db_statement d stmt =
     (case stmt of
        Insert_politician p \<Rightarrow> or_unchanged d (insert_politician d p)
      | Insert_disclosure x \<Rightarrow> or_unchanged d (insert_disclosure d x)
      | Insert_trade t \<Rightarrow> or_unchanged d (insert_trade d t)
      | Cleanup_trades arg \<Rightarrow> d\<lparr>trades := fst (call_cleanup_duplicate_trades arg (trades d))\<rparr>)"

fun run_db_statements :: "db \<Rightarrow> db_statement list \<Rightarrow> db" where
  "run_db_statements d [] = d"
| "run_db_statements d (stmt # stmts) = run_db_statements (run_db_statement d stmt) stmts"

text \<open>The uniqueness invariants of the three tables, as lists without repetition.\<close>

definition db_invariant :: "db \<Rightarrow> bool" where
  "db_invariant d \<longleftrightarrow>
     distinct (map p_id (politicians d))
     \<and> distinct (map d_id (disclosures d))
     \<and> distinct (map disclosure_key (disclosures d))
     \<and> distinct (map trade_id (trades d))
     \<and> distinct (map row_hash (trades d))
     \<and> list_all (\<lambda>t. row_hash t \<noteq> None) (trades d)"

section \<open>The columns of the politicians table under the migrations\<close>

text \<open>
  The migrations that touch the columns of \<open>politicians\<close>, on the list of its column
  names. \<open>DROP COLUMN IF EXISTS\<close> and the guarded \<open>ADD COLUMN\<close> blocks
  (\<open>IF NOT EXISTS (SELECT 1 FROM information_schema.columns ...)\<close>) never fail; a plain
  \<open>ADD COLUMN\<close> fails when the column is there.
\<close>

type_synonym columns = "string list"

definition drop_column_if_exists :: "string \<Rightarrow> columns \<Rightarrow> columns" where
  "drop_column_if_exists c cols = filter (\<lambda>x. x \<noteq> c) cols"

definition add_column_if_not_exists :: "string \<Rightarrow> columns \<Rightarrow> columns" where
  "add_column_if_not_exists c cols = (if c \<in> set cols then cols else cols @ [c])"

definition add_column :: "string \<Rightarrow> columns \<Rightarrow> sql_error + columns" where
  "add_column c cols = (if c \<in> set cols then Inl (duplicate_column c) else Inr (cols @ [c]))"

text \<open>The fresh-schema migration: \<open>CREATE TABLE politicians\<close>.\<close>

definition fresh_schema_politicians :: columns where
  "fresh_schema_politicians =
     [''id'', ''full_name'', ''first_name'', ''last_name'', ''chamber'', ''state'',
      ''district'', ''party'', ''bioguide_id'', ''external_ids'', ''created_at'',
      ''updated_at'']"

text \<open>
  Migration 008 (update politicians table): drops \<open>party\<close>, \<open>external_ids\<close>,
  \<open>first_name\<close>, \<open>last_name\<close>, \<open>bioguide_id\<close> and adds \<open>doc_id\<close> and \<open>filing_date\<close>.
\<close>

definition migration_008 :: "columns \<Rightarrow> sql_error + columns" where
  "migration_008 cols =
     (case add_column ''doc_id''
             (drop_column_if_exists ''bioguide_id'' (drop_column_if_exists ''last_name''
               (drop_column_if_exists ''first_name'' (drop_column_if_exists ''external_ids''
                 (drop_column_if_exists ''party'' cols))))) of
        Inl e \<Rightarrow> Inl e
      | Inr cols' \<Rightarrow> add_column ''filing_date'' cols')"

text \<open>
  The migration that adds \<open>first_name\<close>, \<open>last_name\<close>, \<open>party\<close>, \<open>bioguide_id\<close>,
  \<open>external_ids\<close> and \<open>updated_at\<close> back, and the one that adds the name components
  \<open>prefix\<close>, \<open>first_name\<close>, \<open>last_name\<close>, \<open>suffix\<close>; each column only if it is missing.
\<close>

definition migration_add_names :: "columns \<Rightarrow> columns" where
  "migration_add_names cols =
     add_column_if_not_exists ''updated_at'' (add_column_if_not_exists ''external_ids''
       (add_column_if_not_exists ''bioguide_id'' (add_column_if_not_exists ''party''
         (add_column_if_not_exists ''last_name''
           (add_column_if_not_exists ''first_name'' cols)))))"

definition migration_add_name_components :: "columns \<Rightarrow> columns" where
  "migration_add_name_components cols =
     add_column_if_not_exists ''suffix'' (add_column_if_not_exists ''last_name''
       (add_column_if_not_exists ''first_name'' (add_column_if_not_exists ''prefix'' cols)))"

text \<open>
  Migration 012 (remove \<open>doc_id\<close> and \<open>filing_date\<close> from politicians):
  \<^verbatim>\<open>
  IF EXISTS (SELECT 1 FROM information_schema.columns
             WHERE table_name = 'politicians' AND column_name = 'doc_id') THEN
      ALTER TABLE politicians DROP COLUMN doc_id;
  END IF;
  \<close>
  and the same for \<open>filing_date\<close>.
\<close>

definition migration_012 :: "columns \<Rightarrow> columns" where
  "migration_012 cols = drop_column_if_exists ''filing_date'' (drop_column_if_exists ''doc_id'' cols)"

section \<open>The normalizer\<close>

text \<open>
  Modelled from the spec: the parser of the bulk metadata file (the ingestion worker's
  Python modules are not among the sources). "Fixed-column tab-delimited rows map directly
  to fields (prefix, last, first, suffix, filing type code, state+district compound code,
  year, filing date string, document id)"; a row that does not parse is a \<open>ParseError\<close>,
  recorded and skipped.
\<close>

datatype pipeline_error =
    ParseError string
  | ValidationError string
  | DatastoreError sql_error

fun split_on :: "char \<Rightarrow> string \<Rightarrow> string list" where
  "split_on sep [] = [[]]"
| "split_on sep (c # cs) =
     (if c = sep then [] # split_on sep cs
      else (case split_on sep cs of [] \<Rightarrow> [[c]] | f # fs \<Rightarrow> (c # f) # fs))"

record bulk_fields =
  prefix_field :: string
  last_field :: string
  first_field :: string
  suffix_field :: string
  filing_type_field :: string
  state_district_field :: string
  year_field :: string
  filing_date_field :: string
  document_id_field :: string

definition parse_bulk_row :: "string \<Rightarrow> pipeline_error + bulk_fields" where
  "parse_bulk_row line =
     (case split_on (CHR 0x09) line of
        [a, b, c, e, f, g, h, i, j] \<Rightarrow>
          Inr \<lparr>prefix_field = a, last_field = b, first_field = c, suffix_field = e,
               filing_type_field = f, state_district_field = g, year_field = h,
               filing_date_field = i, document_id_field = j\<rparr>
      | _ \<Rightarrow> Inl (ParseError ''expected nine tab-delimited fields''))"

text \<open>
  Modelled from the spec: the filing-type domain "periodic-transaction, amendment,
  candidate, disclosure, officer, extension, withdrawal" and the map from the
  single-letter codes, "rejecting unknown codes as a recoverable ValidationError". The
  letters are those of the check constraint on \<open>disclosures.filing_type\<close> and its comment
  (P=PTR, A=Amendment, C=Candidate, D=Disclosure, O=Officer, X=Extension, W=Withdrawal).
\<close>

datatype filing_kind =
    Periodic_transaction
  | Amendment
  | Candidate
  | Disclosure
  | Officer
  | Extension
  | Withdrawal

definition filing_kind_of_code :: "string \<Rightarrow> filing_kind option" where
  "filing_kind_of_code c =
     (if c = ''P'' then Some Periodic_transaction
      else if c = ''A'' then Some Amendment
      else if c = ''C'' then Some Candidate
      else if c = ''D'' then Some Disclosure
      else if c = ''O'' then Some Officer
      else if c = ''X'' then Some Extension
      else if c = ''W'' then Some Withdrawal
      else None)"

fun code_of_filing_kind :: "filing_kind \<Rightarrow> string" where
  "code_of_filing_kind Periodic_transaction = ''P''"
| "code_of_filing_kind Amendment = ''A''"
| "code_of_filing_kind Candidate = ''C''"
| "code_of_filing_kind Disclosure = ''D''"
| "code_of_filing_kind Officer = ''O''"
| "code_of_filing_kind Extension = ''X''"
| "code_of_filing_kind Withdrawal = ''W''"

text \<open>
  Modelled from the spec: "split a compound state+district code (e.g. "MI04") into state
  and district": the first two characters are the state, the rest is the district; an
  empty part is absent.
\<close>

definition blank_to_null :: "string \<Rightarrow> string option" where
  "blank_to_null s = (if s = [] then None else Some s)"

definition split_state_district :: "string \<Rightarrow> string option \<times> string option" where
  "split_state_district code = (blank_to_null (take 2 code), blank_to_null (drop 2 code))"

text \<open>
  Modelled from the spec: "parse filing/transaction date strings under an explicit set of
  accepted formats, else null". The spec does not list the formats; the bulk file writes
  dates as month/day/year in digits (\<open>3/24/2025\<close>), and that is the format accepted here.
\<close>

definition is_digit :: "char \<Rightarrow> bool" where
  "is_digit c = (c \<in> set ''0123456789'')"

definition digit_value :: "char \<Rightarrow> nat" where
  "digit_value c = of_char c - 48"

definition number_of_digits :: "string \<Rightarrow> nat option" where
  "number_of_digits s =
     (if s \<noteq> [] \<and> list_all is_digit s
      then Some (foldl (\<lambda>n c. 10 * n + digit_value c) 0 s) else None)"

definition parse_date :: "string \<Rightarrow> date option" where
  "parse_date s =
     (case map number_of_digits (split_on (CHR ''/'') s) of
        [Some m, Some d, Some y] \<Rightarrow>
          if 1 \<le> m \<and> m \<le> 12 \<and> 1 \<le> d \<and> d \<le> 31 then Some \<lparr>year = y, month = m, day = d\<rparr>
          else None
      | _ \<Rightarrow> None)"

text \<open>
  Modelled from the spec: the canonical shapes the normalizer produces for a bulk row: the
  politician's identity fields and the disclosure's fields, neither with a database id.
  The full name is the first name, a space and the last name, as the names in the
  repository's documentation are written; the source tag of the bulk archive is
  \<open>house_clerk\<close>, the default of \<open>disclosures.source\<close>; the raw metadata blob keeps the
  original fields under the column names of the file.
\<close>

record politician_data =
  pd_full_name :: string
  pd_prefix :: "string option"
  pd_first_name :: "string option"
  pd_last_name :: "string option"
  pd_suffix :: "string option"
  pd_state :: "string option"
  pd_district :: "string option"

record disclosure_data =
  dd_source :: string
  dd_document_id :: string
  dd_filing_type :: filing_kind
  dd_filed_date :: "date option"
  dd_raw :: "(string \<times> string) list"

definition normalize_bulk_row :: "bulk_fields \<Rightarrow> pipeline_error + politician_data \<times> disclosure_data" where
  "normalize_bulk_row f =
     (case filing_kind_of_code (filing_type_field f) of
        None \<Rightarrow> Inl (ValidationError ''unknown filing type code'')
      | Some kind \<Rightarrow>
          Inr (\<lparr>pd_full_name = first_field f @ '' '' @ last_field f,
                pd_prefix = blank_to_null (prefix_field f),
                pd_first_name = blank_to_null (first_field f),
                pd_last_name = blank_to_null (last_field f),
                pd_suffix = blank_to_null (suffix_field f),
                pd_state = fst (split_state_district (state_district_field f)),
                pd_district = snd (split_state_district (state_district_field f))\<rparr>,
               \<lparr>dd_source = ''house_clerk'',
                dd_document_id = document_id_field f,
                dd_filing_type = kind,
                dd_filed_date = parse_date (filing_date_field f),
                dd_raw =
                  [(''Prefix'', prefix_field f), (''Last'', last_field f),
                   (''First'', first_field f), (''Suffix'', suffix_field f),
                   (''FilingType'', filing_type_field f),
                   (''StateDst'', state_district_field f), (''Year'', year_field f),
                   (''FilingDate'', filing_date_field f),
                   (''DocID'', document_id_field f)]\<rparr>))"

text \<open>
  Modelled from the spec: a trade as the normalizer hands it to the upserter. "Side is
  normalized to one of {buy, sell, null}"; the content hash is computed by the rule of
  \<open>spec_row_hash\<close> from the disclosure's source and document id and the trade's fields.
\<close>

datatype trade_side = Buy | Sell

fun side_text :: "trade_side \<Rightarrow> string" where
  "side_text Buy = ''buy''"
| "side_text Sell = ''sell''"

record trade_data =
  td_asset_name :: string
  td_ticker :: "string option"
  td_side :: "trade_side option"
  td_transaction_date :: "date option"
  td_published_at :: "timestamptz option"
  td_amount_range :: "string option"
  td_notes :: "string option"

definition trade_content_hash :: "digest_fn \<Rightarrow> disclosure_data \<Rightarrow> trade_data \<Rightarrow> string" where
  "trade_content_hash dg dd td =
     spec_row_hash dg (Some (dd_source dd)) (Some (dd_document_id dd))
       (Some (td_asset_name td)) (td_ticker td) (map_option side_text (td_side td))
       (map_option date_to_text (td_transaction_date td)) (td_amount_range td)"

section \<open>The upserter\<close>

text \<open>
  Modelled from the spec: the id a new row gets. \<open>DEFAULT gen_random_uuid()\<close> draws a
  random UUID; it is taken to be a value no row of the table has.
\<close>

definition fresh_id :: "uuid list \<Rightarrow> uuid" where
  "fresh_id ids = Suc (foldr max ids 0)"

text \<open>
  Modelled from the spec: "Politician upsert: look up by (full_name, state, district);
  insert if absent; on hit, do not overwrite identity fields with null/blank incoming
  values (merge-preferring-existing), but may fill previously-null fields." A field of
  the existing row that has a value keeps it; one that is NULL takes the incoming value.
  The bulk archive is the House's, so the chamber of a new row is \<open>house\<close>. The update on
  a hit is \<open>UPDATE politicians SET ... WHERE id = \<close> the id of the row found.
\<close>

definition data_key :: "politician_data \<Rightarrow> string \<times> string option \<times> string option" where
  "data_key pd = (pd_full_name pd, pd_state pd, pd_district pd)"

definition merge_politician :: "politician \<Rightarrow> politician_data \<Rightarrow> politician" where
  "merge_politician e pd =
     e\<lparr>name_prefix := coalesce (name_prefix e) (pd_prefix pd),
       first_name := coalesce (first_name e) (pd_first_name pd),
       last_name := coalesce (last_name e) (pd_last_name pd),
       name_suffix := coalesce (name_suffix e) (pd_suffix pd),
       chamber := coalesce (chamber e) (Some ''house''),
       state := coalesce (state e) (pd_state pd),
       district := coalesce (district e) (pd_district pd)\<rparr>"

definition new_politician :: "uuid \<Rightarrow> politician_data \<Rightarrow> politician" where
  "new_politician i pd =
     \<lparr>p_id = i, full_name = pd_full_name pd, name_prefix = pd_prefix pd,
      first_name = pd_first_name pd, last_name = pd_last_name pd,
      name_suffix = pd_suffix pd, chamber = Some ''house'', state = pd_state pd,
      district = pd_district pd, party = None, bioguide_id = None\<rparr>"

definition upsert_politician :: "db \<Rightarrow> politician_data \<Rightarrow> sql_error + db \<times> uuid" where
  "upsert_politician d pd =
     (case find (\<lambda>p. politician_key p = data_key pd) (politicians d) of
        Some e \<Rightarrow>
          Inr (d\<lparr>politicians :=
                   map (\<lambda>p. if p_id p = p_id e then merge_politician p pd else p)
                     (politicians d)\<rparr>,
               p_id e)
      | None \<Rightarrow>
          (case insert_politician d
                  (new_politician (fresh_id (map p_id (politicians d))) pd) of
             Inl err \<Rightarrow> Inl err
           | Inr d' \<Rightarrow> Inr (d', fresh_id (map p_id (politicians d)))))"

text \<open>
  Modelled from the spec: "Disclosure insert: look up by (politician_id, source,
  document_id); if present, skip (log as duplicate-skip, not an error); else insert."
  The outcome is what the upserter logs.
\<close>

datatype upsert_outcome =
    Inserted uuid
  | Duplicate_skipped uuid
  | Failed sql_error

definition new_disclosure :: "uuid \<Rightarrow> uuid \<Rightarrow> disclosure_data \<Rightarrow> disclosure" where
  "new_disclosure i pid dd =
     \<lparr>d_id = i, d_politician_id = pid, d_source = dd_source dd,
      doc_id = dd_document_id dd,
      filing_type = Some (code_of_filing_kind (dd_filing_type dd)),
      filed_date = dd_filed_date dd, raw = dd_raw dd\<rparr>"

definition upsert_disclosure :: "db \<Rightarrow> uuid \<Rightarrow> disclosure_data \<Rightarrow> db \<times> upsert_outcome" where
  "upsert_disclosure d pid dd =
     (case find (\<lambda>x. disclosure_key x = (pid, dd_source dd, dd_document_id dd))
             (disclosures d) of
        Some x \<Rightarrow> (d, Duplicate_skipped (d_id x))
      | None \<Rightarrow>
          (case insert_disclosure d
                  (new_disclosure (fresh_id (map d_id (disclosures d))) pid dd) of
             Inl err \<Rightarrow> (d, Failed err)
           | Inr d' \<Rightarrow> (d', Inserted (fresh_id (map d_id (disclosures d))))))"

text \<open>
  Modelled from the spec: "Trade insert: attempt insert; a uniqueness violation on content
  hash is caught and treated as a successful no-op (idempotent replay), not an error."
  \<open>now\<close> is the clock's reading, the value of \<open>DEFAULT NOW()\<close>.
\<close>

definition new_trade ::
  "digest_fn \<Rightarrow> timestamptz \<Rightarrow> uuid \<Rightarrow> uuid \<Rightarrow> uuid \<Rightarrow> disclosure_data \<Rightarrow> trade_data \<Rightarrow> trade" where
  "new_trade dg now i did pid dd td =
     \<lparr>trade_id = i, row_hash = Some (trade_content_hash dg dd td), created_at = Some now,
      disclosure_id = did, politician_id = pid,
      transaction_date = td_transaction_date td, published_at = td_published_at td,
      ticker = td_ticker td, asset_name = td_asset_name td,
      side = map_option side_text (td_side td), amount_range = td_amount_range td,
      trade_notes = td_notes td\<rparr>"

definition upsert_trade ::
  "digest_fn \<Rightarrow> timestamptz \<Rightarrow> uuid \<Rightarrow> uuid \<Rightarrow> disclosure_data \<Rightarrow> db \<Rightarrow> trade_data \<Rightarrow> db" where
  "upsert_trade dg now did pid dd d td =
     (case insert_trade d
             (new_trade dg now (fresh_id (map trade_id (trades d))) did pid dd td) of
        Inl err \<Rightarrow> d
      | Inr d' \<Rightarrow> d')"

section \<open>The pipeline\<close>

text \<open>
  Modelled from the spec: what the orchestrator does with one normalized record, the unit
  of work: upsert the politician, insert the disclosure under the politician's id unless
  it is there, then insert the disclosure's trades. A failure of a step leaves the
  database as the steps before it left it and ends the record; the run goes on with the
  next record.
\<close>

record unit_of_work =
  unit_politician :: politician_data
  unit_disclosure :: disclosure_data
  unit_trades :: "trade_data list"

definition ingest_unit :: "digest_fn \<Rightarrow> timestamptz \<Rightarrow> db \<Rightarrow> unit_of_work \<Rightarrow> db" where
  "ingest_unit dg now d u =
     (case upsert_politician d (unit_politician u) of
        Inl err \<Rightarrow> d
      | Inr (d1, pid) \<Rightarrow>
          (case upsert_disclosure d1 pid (unit_disclosure u) of
             (d2, Failed err) \<Rightarrow> d2
           | (d2, Inserted did) \<Rightarrow>
               foldl (upsert_trade dg now did pid (unit_disclosure u)) d2 (unit_trades u)
           | (d2, Duplicate_skipped did) \<Rightarrow>
               foldl (upsert_trade dg now did pid (unit_disclosure u)) d2 (unit_trades u)))"


text \<open>
  Modelled from the spec: bulk mode on the lines of an archive's metadata file: a line
  that parses and normalizes is ingested as a unit without trades; any other line is
  skipped.
\<close>

definition unit_of_line :: "string \<Rightarrow> pipeline_error + unit_of_work" where
  "unit_of_line line =
     (case parse_bulk_row line of
        Inl err \<Rightarrow> Inl err
      | Inr f \<Rightarrow>
          (case normalize_bulk_row f of
             Inl err \<Rightarrow> Inl err
           | Inr (pd, dd) \<Rightarrow>
               Inr \<lparr>unit_politician = pd, unit_disclosure = dd, unit_trades = []\<rparr>))"

definition ingest_line :: "digest_fn \<Rightarrow> timestamptz \<Rightarrow> db \<Rightarrow> string \<Rightarrow> db" where
  "ingest_line dg now d line =
     (case unit_of_line line of Inl err \<Rightarrow> d | Inr u \<Rightarrow> ingest_unit dg now d u)"

definition run_bulk :: "digest_fn \<Rightarrow> timestamptz \<Rightarrow> db \<Rightarrow> string list \<Rightarrow> db" where
  "run_bulk dg now d lines = foldl (ingest_line dg now) d lines"

definition row_counts :: "db \<Rightarrow> nat \<times> nat \<times> nat" where
  "row_counts d = (length (politicians d), length (disclosures d), length (trades d))"

section \<open>Notions used to state the upserter's properties\<close>





section \<open>Example data\<close>

text \<open>
  Concrete rows for the examples below. \<open>example_digest\<close> stands in for SHA-256 where an
  example has to name a digest function: it returns the bytes of the message itself.
\<close>

definition example_digest :: digest_fn where
  "example_digest m alg = map (\<lambda>c. of_nat (of_char c)) m"

definition manual_trade :: "uuid \<Rightarrow> string option \<Rightarrow> timestamptz \<Rightarrow> ptr_trade" where
  "manual_trade i h c =
     \<lparr>trade_id = i, row_hash = h, created_at = Some c, source = Some ''manual'',
      filing_id = None, asset_description = Some ''Apple Inc.'', ticker = Some ''AAPL'',
      transaction_type = Some ''Purchase'',
      transaction_date = Some \<lparr>year = 2024, month = 1, day = 15\<rparr>,
      amount_range = Some ''$1,001 - $15,000''\<rparr>"

definition example_trades :: "ptr_trade list" where
  "example_trades =
     [manual_trade 1 (Some ''aa'') 30, manual_trade 2 (Some ''aa'') 10,
      manual_trade 3 None 5, manual_trade 4 (Some ''aa'') 20, manual_trade 5 (Some ''bb'') 7]"

definition example_politician :: "uuid \<Rightarrow> string option \<Rightarrow> politician" where
  "example_politician i dist =
     \<lparr>p_id = i, full_name = ''Richard Aaron'', name_prefix = None,
      first_name = Some ''Richard'', last_name = Some ''Aaron'', name_suffix = Some ''D'',
      chamber = Some ''house'', state = Some ''MI'', district = dist, party = None,
      bioguide_id = None\<rparr>"

definition example_disclosure :: "uuid \<Rightarrow> uuid \<Rightarrow> string \<Rightarrow> disclosure" where
  "example_disclosure i pid doc =
     \<lparr>d_id = i, d_politician_id = pid, d_source = ''house_clerk'', doc_id = doc,
      filing_type = Some ''P'', filed_date = Some \<lparr>year = 2025, month = 3, day = 24\<rparr>,
      raw = []\<rparr>"

definition example_amount :: string where
  "example_amount = ''$1,001'' @ [CHR 0xE2, CHR 0x80, CHR 0x93] @ ''$15,000''"

definition example_row_hash :: "string \<Rightarrow> string option" where
  "example_row_hash doc =
     generate_trade_row_hash example_digest (Some ''house_clerk'') (Some doc)
       (Some ''Apple Inc.'') (Some ''AAPL'') (Some ''buy'')
       (Some \<lparr>year = 2024, month = 1, day = 15\<rparr>) (Some example_amount)"

definition example_trade :: "uuid \<Rightarrow> uuid \<Rightarrow> string option \<Rightarrow> trade" where
  "example_trade i did h =
     \<lparr>trade_id = i, row_hash = h, created_at = Some 100, disclosure_id = did,
      politician_id = 1, transaction_date = Some \<lparr>year = 2024, month = 1, day = 15\<rparr>,
      published_at = None, ticker = Some ''AAPL'', asset_name = ''Apple Inc.'',
      side = Some ''buy'', amount_range = Some example_amount, trade_notes = None\<rparr>"

definition example_statements :: "db_statement list" where
  "example_statements =
     [Insert_politician (example_politician 1 (Some ''04'')),
      Insert_disclosure (example_disclosure 1 1 ''40003749''),
      Insert_disclosure (example_disclosure 2 1 ''40003750''),
      Insert_trade (example_trade 1 1 (example_row_hash ''40003749'')),
      Insert_trade (example_trade 2 1 (example_row_hash ''40003749'')),
      Insert_trade (example_trade 3 2 (example_row_hash ''40003750''))]"

text \<open>The bulk row of the specification's scenario, and what it normalizes to.\<close>

definition example_line :: string where
  "example_line =
     [CHR 0x09] @ ''Aaron'' @ [CHR 0x09] @ ''Richard'' @ [CHR 0x09] @ ''D'' @ [CHR 0x09] @
     ''P'' @ [CHR 0x09] @ ''MI04'' @ [CHR 0x09] @ ''2025'' @ [CHR 0x09] @ ''3/24/2025'' @
     [CHR 0x09] @ ''40003749''"

definition example_unit :: unit_of_work where
  "example_unit =
     \<lparr>unit_politician =
        \<lparr>pd_full_name = ''Richard Aaron'', pd_prefix = None, pd_first_name = Some ''Richard'',
         pd_last_name = Some ''Aaron'', pd_suffix = Some ''D'', pd_state = Some ''MI'',
         pd_district = Some ''04''\<rparr>,
      unit_disclosure =
        \<lparr>dd_source = ''house_clerk'', dd_document_id = ''40003749'',
         dd_filing_type = Periodic_transaction,
         dd_filed_date = Some \<lparr>year = 2025, month = 3, day = 24\<rparr>,
         dd_raw =
           [(''Prefix'', []), (''Last'', ''Aaron''), (''First'', ''Richard''),
            (''Suffix'', ''D''), (''FilingType'', ''P''), (''StateDst'', ''MI04''),
            (''Year'', ''2025''), (''FilingDate'', ''3/24/2025''), (''DocID'', ''40003749'')]\<rparr>,
      unit_trades = []\<rparr>"

definition example_db :: db where
  "example_db =
     \<lparr>politicians = [new_politician 1 (unit_politician example_unit)],
      disclosures = [new_disclosure 1 1 (unit_disclosure example_unit)],
      trades = []\<rparr>"




definition example_disclosure_statements :: "db_statement list" where
  "example_disclosure_statements =
     [Insert_politician (example_politician 1 (Some ''04'')),
      Insert_disclosure (example_disclosure 1 1 ''40003749''),
      Insert_disclosure (example_disclosure 2 1 ''40003749''),
      Insert_disclosure (example_disclosure 3 1 ''40003750'')]"

section \<open>Properties of the content hash\<close>

lemma coalesce_or_empty: "coalesce x (Some []) = Some (or_empty x)"
  by (cases x) (simp_all add: coalesce_def or_empty_def)

lemma sql_concat_Some: "sql_concat (Some a) (Some b) = Some (a @ b)"
  by (simp add: sql_concat_def)

lemma row_hash_message_eq:
  "row_hash_message src doc asset tick sd dt amount =
     Some (pipe_join (canonical_fields src doc asset tick sd (map_option date_to_text dt) amount))"
  by (simp add: row_hash_message_def canonical_fields_def coalesce_or_empty sql_concat_Some)






section \<open>Properties of the duplicate cleanup\<close>

lemma foldl_cleanup_dry_run:
  "foldl (cleanup_step True) st ds =
     st\<lparr>total_found := total_found st + sum_list (map (\<lambda>d. cnt d - 1) ds),
        returned := returned st @
          map (\<lambda>d. \<lparr>action = ''WOULD DELETE'', reported_row_hash = dup_row_hash d,
                     duplicates_found = cnt d - 1, duplicates_removed = Some 0\<rparr>) ds\<rparr>"
  by (induction ds arbitrary: st) (simp_all add: cleanup_step_def Let_def)

lemma set_grouped_hashes:
  "h \<in> set (grouped_hashes ts) \<longleftrightarrow> (\<exists>t\<in>set ts. row_hash t = Some h)"
  by (force simp: grouped_hashes_def List.map_filter_def)

lemma distinct_grouped_hashes: "distinct (grouped_hashes ts)"
  by (simp add: grouped_hashes_def)

lemma hash_group_nonempty_grouped:
  "hash_group h ts \<noteq> [] \<Longrightarrow> h \<in> set (grouped_hashes ts)"
  by (auto simp: hash_group_def set_grouped_hashes filter_empty_conv)

lemma dup_row_hash_duplicate_records:
  "map dup_row_hash (duplicate_records ts) =
     filter (\<lambda>h. 1 < length (hash_group h ts)) (grouped_hashes ts)"
  by (simp add: duplicate_records_def o_def)

lemma set_duplicate_hashes:
  "set (map dup_row_hash (duplicate_records ts)) = {h. 1 < length (hash_group h ts)}"
proof -
  have "1 < length (hash_group h ts) \<Longrightarrow> h \<in> set (grouped_hashes ts)" for h
    by (rule hash_group_nonempty_grouped) auto
  then show ?thesis unfolding dup_row_hash_duplicate_records by auto
qed

lemma distinct_duplicate_hashes: "distinct (map dup_row_hash (duplicate_records ts))"
  unfolding dup_row_hash_duplicate_records by (simp add: distinct_grouped_hashes)

lemma cleanup_dry_run_table: "fst (cleanup_duplicate_trades True ts) = ts"
  by (simp add: cleanup_duplicate_trades_def Let_def foldl_cleanup_dry_run)

text \<open>
  Claim C9. \<open>dry_run\<close> defaults to true: a call that leaves the argument out is a dry run.
  A dry run leaves the trades table as it was, and the rows it returns are one
  \<open>WOULD DELETE\<close> row with \<open>duplicates_removed = 0\<close> for each duplicate hash group, each
  group once, followed by the \<open>DRY RUN SUMMARY\<close> row. The groups listed are exactly the
  hashes carried by more than one row.
\<close>

theorem cleanup_dry_run_leaves_table:
  "call_cleanup_duplicate_trades None ts = cleanup_duplicate_trades True ts
   \<and> fst (cleanup_duplicate_trades True ts) = ts
   \<and> snd (cleanup_duplicate_trades True ts) =
       map (\<lambda>d. \<lparr>action = ''WOULD DELETE'', reported_row_hash = dup_row_hash d,
                  duplicates_found = cnt d - 1, duplicates_removed = Some 0\<rparr>)
         (duplicate_records ts) @
       [\<lparr>action = ''DRY RUN SUMMARY'', reported_row_hash = '''',
         duplicates_found = sum_list (map (\<lambda>d. cnt d - 1) (duplicate_records ts)),
         duplicates_removed = Some 0\<rparr>]
   \<and> distinct (map dup_row_hash (duplicate_records ts))
   \<and> set (map dup_row_hash (duplicate_records ts)) = {h. 1 < length (hash_group h ts)}"
  by (simp add: call_cleanup_duplicate_trades_def cleanup_duplicate_trades_def Let_def
      foldl_cleanup_dry_run set_duplicate_hashes distinct_duplicate_hashes
      del: set_map)

lemma example_duplicate_records:
  "duplicate_records example_trades =
     [\<lparr>dup_row_hash = ''aa'', cnt = 3, all_ids = [2, 4, 1]\<rparr>]"
  by code_simp

theorem cleanup_dry_run_example:
  "fst (call_cleanup_duplicate_trades None example_trades) = example_trades
   \<and> snd (call_cleanup_duplicate_trades None example_trades) =
       [\<lparr>action = ''WOULD DELETE'', reported_row_hash = ''aa'', duplicates_found = 2,
         duplicates_removed = Some 0\<rparr>,
        \<lparr>action = ''DRY RUN SUMMARY'', reported_row_hash = '''', duplicates_found = 2,
         duplicates_removed = Some 0\<rparr>]"
  using cleanup_dry_run_leaves_table [of example_trades]
  by (simp add: example_duplicate_records)

lemma foldl_cleanup_delete:
  "remaining (foldl (cleanup_step False) st ds) =
     filter (\<lambda>t. trade_id t \<notin> set (concat (map (\<lambda>d. drop 1 (all_ids d)) ds))) (remaining st)"
proof (induction ds arbitrary: st)
  case Nil
  show ?case by simp
next
  case (Cons d ds)
  have "remaining (cleanup_step False st d) =
          filter (\<lambda>t. trade_id t \<notin> set (drop 1 (all_ids d))) (remaining st)"
    by (simp add: cleanup_step_def Let_def)
  then show ?case
    by (simp add: Cons.IH conj_commute)
qed

lemma cleanup_table:
  "fst (cleanup_duplicate_trades False ts) =
     filter (\<lambda>t. trade_id t \<notin> set (deleted_ids ts)) ts"
  by (simp add: cleanup_duplicate_trades_def Let_def foldl_cleanup_delete deleted_ids_def)

lemma in_deleted_ids_iff:
  "i \<in> set (deleted_ids ts) \<longleftrightarrow>
     (\<exists>h. 1 < length (hash_group h ts) \<and>
          i \<in> set (drop 1 (map trade_id (order_by_created_at (hash_group h ts)))))"
proof -
  have "1 < length (hash_group h ts) \<Longrightarrow> h \<in> set (grouped_hashes ts)" for h
    by (rule hash_group_nonempty_grouped) auto
  then show ?thesis
    by (auto simp: deleted_ids_def duplicate_records_def)
qed

lemma set_order_by_created_at: "set (order_by_created_at ts) = set ts"
  by (simp add: order_by_created_at_def)

lemma distinct_order_by_created_at: "distinct (order_by_created_at ts) = distinct ts"
  by (simp add: order_by_created_at_def)

lemma hash_group_subset: "set (hash_group h ts) \<subseteq> set ts"
  by (auto simp: hash_group_def)

lemma in_hash_group: "t \<in> set (hash_group h ts) \<longleftrightarrow> t \<in> set ts \<and> row_hash t = Some h"
  by (auto simp: hash_group_def)

lemma deleted_id_row:
  assumes ids: "distinct (map trade_id ts)" and t: "t \<in> set ts"
    and del: "trade_id t \<in> set (drop 1 (map trade_id (order_by_created_at (hash_group h ts))))"
  shows "t \<in> set (drop 1 (order_by_created_at (hash_group h ts)))"
proof -
  from del obtain t' where t': "t' \<in> set (drop 1 (order_by_created_at (hash_group h ts)))"
    and eq: "trade_id t' = trade_id t"
    by (auto simp: drop_map)
  from t' have "t' \<in> set (order_by_created_at (hash_group h ts))"
    by (rule in_set_dropD)
  then have "t' \<in> set ts"
    using hash_group_subset [of h ts] by (auto simp: set_order_by_created_at)
  moreover from ids have "inj_on trade_id (set ts)"
    by (simp add: distinct_map)
  ultimately have "t' = t" using t eq by (auto dest: inj_onD)
  with t' show ?thesis by simp
qed

lemma tail_of_group:
  assumes ids: "distinct (map trade_id ts)" and t: "t \<in> set (hash_group h ts)"
  shows "t \<in> set (drop 1 (order_by_created_at (hash_group h ts))) \<longleftrightarrow>
         t \<noteq> hd (order_by_created_at (hash_group h ts))"
proof -
  let ?S = "order_by_created_at (hash_group h ts)"
  from ids have "distinct ts" by (simp add: distinct_map)
  then have dS: "distinct ?S"
    by (simp add: distinct_order_by_created_at hash_group_def)
  from t have tS: "t \<in> set ?S" by (simp add: set_order_by_created_at)
  then obtain k rest where S: "?S = k # rest" by (cases ?S) auto
  with dS tS show ?thesis by auto
qed

lemma deleted_iff_not_first:
  assumes ids: "distinct (map trade_id ts)" and t: "t \<in> set ts"
    and h: "row_hash t = Some h" and dup: "1 < length (hash_group h ts)"
  shows "trade_id t \<in> set (deleted_ids ts) \<longleftrightarrow>
         t \<noteq> hd (order_by_created_at (hash_group h ts))"
proof
  assume "trade_id t \<in> set (deleted_ids ts)"
  then obtain h' where h': "1 < length (hash_group h' ts)"
    and del: "trade_id t \<in> set (drop 1 (map trade_id (order_by_created_at (hash_group h' ts))))"
    by (auto simp: in_deleted_ids_iff)
  from deleted_id_row [OF ids t del]
  have tl: "t \<in> set (drop 1 (order_by_created_at (hash_group h' ts)))" .
  then have "t \<in> set (hash_group h' ts)"
    by (auto dest: in_set_dropD simp: set_order_by_created_at)
  with h have "h' = h" by (simp add: in_hash_group)
  with tl tail_of_group [OF ids, of t h] t h
  show "t \<noteq> hd (order_by_created_at (hash_group h ts))"
    by (simp add: in_hash_group)
next
  assume ne: "t \<noteq> hd (order_by_created_at (hash_group h ts))"
  from t h have "t \<in> set (hash_group h ts)" by (simp add: in_hash_group)
  with ne tail_of_group [OF ids, of t h]
  have "t \<in> set (drop 1 (order_by_created_at (hash_group h ts)))" by simp
  then have "trade_id t \<in> set (drop 1 (map trade_id (order_by_created_at (hash_group h ts))))"
    by (auto simp: drop_map)
  with dup show "trade_id t \<in> set (deleted_ids ts)"
    by (auto simp: in_deleted_ids_iff)
qed

lemma deleted_only_duplicates:
  assumes ids: "distinct (map trade_id ts)" and t: "t \<in> set ts"
    and del: "trade_id t \<in> set (deleted_ids ts)"
  shows "\<exists>h. row_hash t = Some h \<and> 1 < length (hash_group h ts)"
proof -
  from del obtain h where h: "1 < length (hash_group h ts)"
    and d: "trade_id t \<in> set (drop 1 (map trade_id (order_by_created_at (hash_group h ts))))"
    by (auto simp: in_deleted_ids_iff)
  from deleted_id_row [OF ids t d]
  have "t \<in> set (hash_group h ts)"
    by (auto dest: in_set_dropD simp: set_order_by_created_at)
  with h show ?thesis by (auto simp: in_hash_group)
qed

lemma filter_eq_singleton:
  "distinct xs \<Longrightarrow> k \<in> set xs \<Longrightarrow> filter (\<lambda>x. x = k) xs = [k]"
  by (induction xs) (auto simp: filter_empty_conv)

lemma first_created_minimal:
  assumes "t \<in> set (hash_group h ts)"
  shows "created_key (hd (order_by_created_at (hash_group h ts))) \<le> created_key t"
proof -
  let ?S = "order_by_created_at (hash_group h ts)"
  have srt: "sorted (map created_key ?S)" by (simp add: order_by_created_at_def)
  from assms have tS: "t \<in> set ?S" by (simp add: set_order_by_created_at)
  then obtain k rest where S: "?S = k # rest" by (cases ?S) auto
  with srt tS show ?thesis by auto
qed

lemma first_created_in_group:
  assumes dup: "1 < length (hash_group h ts)"
  shows "hd (order_by_created_at (hash_group h ts)) \<in> set (hash_group h ts)"
proof -
  from dup obtain x where "x \<in> set (hash_group h ts)"
    by (cases "hash_group h ts") auto
  then have "x \<in> set (order_by_created_at (hash_group h ts))"
    by (simp add: set_order_by_created_at)
  then have "order_by_created_at (hash_group h ts) \<noteq> []" by auto
  then have "hd (order_by_created_at (hash_group h ts)) \<in>
               set (order_by_created_at (hash_group h ts))"
    by (rule hd_in_set)
  then show ?thesis by (simp add: set_order_by_created_at)
qed

lemma cleanup_group_result:
  assumes ids: "distinct (map trade_id ts)" and dup: "1 < length (hash_group h ts)"
  shows "hash_group h (fst (cleanup_duplicate_trades False ts)) =
           [hd (order_by_created_at (hash_group h ts))]"
proof -
  let ?k = "hd (order_by_created_at (hash_group h ts))"
  from first_created_in_group [OF dup]
  have k: "?k \<in> set ts" "row_hash ?k = Some h"
    by (simp_all add: in_hash_group)
  from ids have dts: "distinct ts" by (simp add: distinct_map)
  have "hash_group h (fst (cleanup_duplicate_trades False ts)) =
          filter (\<lambda>t. trade_id t \<notin> set (deleted_ids ts) \<and> row_hash t = Some h) ts"
    by (simp add: cleanup_table hash_group_def conj_commute)
  also have "\<dots> = filter (\<lambda>t. t = ?k) ts"
  proof (rule filter_cong [OF refl])
    fix t assume t: "t \<in> set ts"
    show "(trade_id t \<notin> set (deleted_ids ts) \<and> row_hash t = Some h) = (t = ?k)"
    proof (cases "row_hash t = Some h")
      case True
      with deleted_iff_not_first [OF ids t True dup] show ?thesis by simp
    next
      case False
      with k show ?thesis by auto
    qed
  qed
  also have "\<dots> = [?k]" using dts k(1) by (rule filter_eq_singleton)
  finally show ?thesis .
qed

lemma cleanup_keeps_other_rows:
  assumes ids: "distinct (map trade_id ts)"
  shows "filter (\<lambda>t. \<not> in_duplicate_group ts t) (fst (cleanup_duplicate_trades False ts)) =
         filter (\<lambda>t. \<not> in_duplicate_group ts t) ts"
proof -
  have "filter (\<lambda>t. \<not> in_duplicate_group ts t) (fst (cleanup_duplicate_trades False ts)) =
        filter (\<lambda>t. trade_id t \<notin> set (deleted_ids ts) \<and> \<not> in_duplicate_group ts t) ts"
    by (simp add: cleanup_table conj_commute)
  also have "\<dots> = filter (\<lambda>t. \<not> in_duplicate_group ts t) ts"
  proof (rule filter_cong [OF refl])
    fix t assume t: "t \<in> set ts"
    show "(trade_id t \<notin> set (deleted_ids ts) \<and> \<not> in_duplicate_group ts t) =
          (\<not> in_duplicate_group ts t)"
      using deleted_only_duplicates [OF ids t]
      by (auto simp: in_duplicate_group_def)
  qed
  finally show ?thesis .
qed

lemma insert_ptr_trade_keeps_rows:
  "insert_ptr_trade dg tbl new = Inr tbl' \<Longrightarrow> set tbl \<subseteq> set tbl'"
  by (auto simp: insert_ptr_trade_def Let_def split: option.splits if_splits)

lemma run_statement_keeps_rows:
  "stmt \<noteq> Cleanup (Some False) \<Longrightarrow> set tbl \<subseteq> set (run_statement dg tbl stmt)"
proof (cases stmt)
  case (Insert new)
  then show ?thesis
    by (auto simp: run_statement_def split: sum.splits dest: insert_ptr_trade_keeps_rows)
next
  case Find_duplicates
  then show ?thesis by (simp add: run_statement_def)
next
  case (Cleanup arg)
  assume "stmt \<noteq> Cleanup (Some False)"
  with Cleanup have "(case arg of None \<Rightarrow> True | Some b \<Rightarrow> b) = True"
    by (cases arg) auto
  with Cleanup show ?thesis
    by (simp add: run_statement_def call_cleanup_duplicate_trades_def cleanup_dry_run_table)
qed

text \<open>
  Claim C5. In a table whose ids are distinct (the primary key), the cleanup run with
  \<open>dry_run = false\<close> leaves of every duplicate hash group exactly one row, the first of
  the group in \<open>created_at\<close> order: a row of the group whose \<open>created_at\<close> no other row of
  the group precedes (NULL last). It adds no row, and it keeps every row that is in no
  duplicate group (a NULL hash, or a hash no other row carries). No other statement
  removes a row: after an insert, \<open>find_duplicate_trades\<close> or a dry-run cleanup every row
  of the table is still there.
\<close>

theorem cleanup_deletes_all_but_earliest:
  assumes ids: "distinct (map trade_id ts)"
  shows "(1 < length (hash_group h ts) \<longrightarrow>
            hash_group h (fst (cleanup_duplicate_trades False ts)) =
              [hd (order_by_created_at (hash_group h ts))]
          \<and> hd (order_by_created_at (hash_group h ts)) \<in> set (hash_group h ts)
          \<and> (\<forall>t \<in> set (hash_group h ts).
                created_key (hd (order_by_created_at (hash_group h ts))) \<le> created_key t))
       \<and> set (fst (cleanup_duplicate_trades False ts)) \<subseteq> set ts
       \<and> filter (\<lambda>t. \<not> in_duplicate_group ts t) (fst (cleanup_duplicate_trades False ts)) =
           filter (\<lambda>t. \<not> in_duplicate_group ts t) ts
       \<and> (stmt \<noteq> Cleanup (Some False) \<longrightarrow> set ts \<subseteq> set (run_statement dg ts stmt))"
proof (intro conjI impI)
  assume dup: "1 < length (hash_group h ts)"
  show "hash_group h (fst (cleanup_duplicate_trades False ts)) =
          [hd (order_by_created_at (hash_group h ts))]"
    using ids dup by (rule cleanup_group_result)
  show "hd (order_by_created_at (hash_group h ts)) \<in> set (hash_group h ts)"
    using dup by (rule first_created_in_group)
  show "\<forall>t \<in> set (hash_group h ts).
          created_key (hd (order_by_created_at (hash_group h ts))) \<le> created_key t"
    by (auto intro: first_created_minimal)
next
  show "set (fst (cleanup_duplicate_trades False ts)) \<subseteq> set ts"
    by (auto simp: cleanup_table)
  show "filter (\<lambda>t. \<not> in_duplicate_group ts t) (fst (cleanup_duplicate_trades False ts)) =
          filter (\<lambda>t. \<not> in_duplicate_group ts t) ts"
    using ids by (rule cleanup_keeps_other_rows)
next
  assume "stmt \<noteq> Cleanup (Some False)"
  then show "set ts \<subseteq> set (run_statement dg ts stmt)"
    by (rule run_statement_keeps_rows)
qed

lemma example_trades_ids: "distinct (map trade_id example_trades)"
  by (simp add: example_trades_def manual_trade_def)

lemma example_trades_group:
  "hash_group ''aa'' example_trades =
     [manual_trade 1 (Some ''aa'') 30, manual_trade 2 (Some ''aa'') 10,
      manual_trade 4 (Some ''aa'') 20]"
  by (simp add: example_trades_def manual_trade_def hash_group_def)

lemma example_trades_first:
  "hd (order_by_created_at (hash_group ''aa'' example_trades)) = manual_trade 2 (Some ''aa'') 10"
  by code_simp

lemma example_trades_others:
  "filter (\<lambda>t. \<not> in_duplicate_group example_trades t) example_trades =
     [manual_trade 3 None 5, manual_trade 5 (Some ''bb'') 7]"
  by code_simp

theorem cleanup_deletes_all_but_earliest_example:
  "distinct (map trade_id example_trades)
   \<and> 1 < length (hash_group ''aa'' example_trades)
   \<and> hash_group ''aa'' (fst (cleanup_duplicate_trades False example_trades)) =
       [manual_trade 2 (Some ''aa'') 10]
   \<and> filter (\<lambda>t. \<not> in_duplicate_group example_trades t)
       (fst (cleanup_duplicate_trades False example_trades)) =
       [manual_trade 3 None 5, manual_trade 5 (Some ''bb'') 7]
   \<and> Cleanup None \<noteq> Cleanup (Some False)
   \<and> set example_trades \<subseteq> set (run_statement example_digest example_trades (Cleanup None))"
proof -
  have dup: "1 < length (hash_group ''aa'' example_trades)"
    by (simp add: example_trades_group)
  have ne: "Cleanup None \<noteq> Cleanup (Some False)" by simp
  from cleanup_deletes_all_but_earliest
         [OF example_trades_ids, of "''aa''" "Cleanup None" example_digest] dup ne
  show ?thesis
    by (simp add: example_trades_ids example_trades_first example_trades_others)
qed

section \<open>Properties of the row hash trigger and the unique index\<close>


lemma trade_id_update_trade_row_hash [simp]:
  "trade_id (update_trade_row_hash dg new) = trade_id new"
  by (simp add: update_trade_row_hash_def)

lemma source_update_trade_row_hash [simp]:
  "source (update_trade_row_hash dg new) = source new"
  by (simp add: update_trade_row_hash_def)














section \<open>Properties of the fresh schema\<close>

lemma hex_digit_inj:
  assumes "a < 16" and "b < 16" and "hex_digit a = hex_digit b"
  shows "a = b"
proof -
  have "distinct ''0123456789abcdef''" by simp
  moreover have "a < length ''0123456789abcdef''" "b < length ''0123456789abcdef''"
    using assms by simp_all
  ultimately show ?thesis
    using assms(3) unfolding hex_digit_def by (simp only: nth_eq_iff_index_eq)
qed

lemma hex_byte_inj:
  assumes "hex_byte a = hex_byte b"
  shows "a = b"
proof -
  have la: "unat a < 256" using unsigned_less [of a, where ?'a = nat] by simp
  have lb: "unat b < 256" using unsigned_less [of b, where ?'a = nat] by simp
  from assms have "hex_digit (unat a div 16) = hex_digit (unat b div 16)"
    and "hex_digit (unat a mod 16) = hex_digit (unat b mod 16)"
    by (simp_all add: hex_byte_def)
  moreover from la lb have "unat a div 16 < 16" "unat b div 16 < 16" by simp_all
  moreover have "unat a mod 16 < 16" "unat b mod 16 < 16" by simp_all
  ultimately have "unat a div 16 = unat b div 16" and "unat a mod 16 = unat b mod 16"
    by (auto intro: hex_digit_inj)
  then have "unat a = unat b"
    by (metis div_mult_mod_eq)
  then show ?thesis by (simp add: word_unat_eq_iff)
qed

lemma encode_hex_inj: "encode_hex bs = encode_hex cs \<Longrightarrow> bs = cs"
proof (induction bs arbitrary: cs)
  case Nil
  then show ?case by (cases cs) (simp_all add: encode_hex_def hex_byte_def)
next
  case (Cons b bs)
  show ?case
  proof (cases cs)
    case Nil
    with Cons.prems show ?thesis by (simp add: encode_hex_def hex_byte_def)
  next
    case (Cons c cs')
    with Cons.prems have "hex_byte b @ encode_hex bs = hex_byte c @ encode_hex cs'"
      by (simp add: encode_hex_def)
    moreover have "length (hex_byte b) = length (hex_byte c)" by (simp add: hex_byte_def)
    ultimately have "hex_byte b = hex_byte c" and "encode_hex bs = encode_hex cs'"
      by simp_all
    with Cons.IH [of cs'] Cons show ?thesis by (simp add: hex_byte_inj)
  qed
qed

lemma messages_differ_by_document:
  assumes "coalesce doc1 (Some []) \<noteq> coalesce doc2 (Some [])"
  shows "row_hash_message src doc1 asset tick sd dt amount \<noteq>
         row_hash_message src doc2 asset tick sd dt amount"
  using assms by (simp add: row_hash_message_eq coalesce_or_empty canonical_fields_def)

lemma hashes_differ_by_document:
  assumes "sql_digest dg (row_hash_message src doc1 asset tick sd dt amount) ''sha256'' \<noteq>
           sql_digest dg (row_hash_message src doc2 asset tick sd dt amount) ''sha256''"
  shows "generate_trade_row_hash dg src doc1 asset tick sd dt amount \<noteq>
         generate_trade_row_hash dg src doc2 asset tick sd dt amount"
  using assms
  by (auto simp: generate_trade_row_hash_def sql_encode_hex_def sql_digest_def
      row_hash_message_eq dest: encode_hex_inj)

lemma insert_politician_Inr:
  "insert_politician d p = Inr d' \<longleftrightarrow>
     d' = d\<lparr>politicians := politicians d @ [p]\<rparr>
     \<and> (chamber p = None \<or> chamber p \<in> {Some ''house'', Some ''senate''})
     \<and> p_id p \<notin> set (map p_id (politicians d))
     \<and> (bioguide_id p = None \<or> bioguide_id p \<notin> set (map bioguide_id (politicians d)))"
  by (auto simp: insert_politician_def)

lemma insert_disclosure_Inr:
  "insert_disclosure d x = Inr d' \<longleftrightarrow>
     d' = d\<lparr>disclosures := disclosures d @ [x]\<rparr>
     \<and> (filing_type x = None \<or> filing_type x \<in> Some ` set filing_type_codes)
     \<and> d_id x \<notin> set (map d_id (disclosures d))
     \<and> disclosure_key x \<notin> set (map disclosure_key (disclosures d))
     \<and> d_politician_id x \<in> set (map p_id (politicians d))"
  by (auto simp: insert_disclosure_def)

lemma insert_trade_Inr:
  "insert_trade d t = Inr d' \<longleftrightarrow>
     d' = d\<lparr>trades := trades d @ [t]\<rparr>
     \<and> row_hash t \<noteq> None
     \<and> (side t = None \<or> side t \<in> {Some ''buy'', Some ''sell''})
     \<and> trade_id t \<notin> set (map trade_id (trades d))
     \<and> row_hash t \<notin> set (map row_hash (trades d))
     \<and> disclosure_id t \<in> set (map d_id (disclosures d))
     \<and> politician_id t \<in> set (map p_id (politicians d))"
  by (auto simp: insert_trade_def)

lemma insert_politician_invariant:
  "insert_politician d p = Inr d' \<Longrightarrow> db_invariant d \<Longrightarrow> db_invariant d'"
  by (auto simp: insert_politician_Inr db_invariant_def)

lemma insert_disclosure_invariant:
  "insert_disclosure d x = Inr d' \<Longrightarrow> db_invariant d \<Longrightarrow> db_invariant d'"
  by (auto simp: insert_disclosure_Inr db_invariant_def)

lemma insert_trade_invariant:
  "insert_trade d t = Inr d' \<Longrightarrow> db_invariant d \<Longrightarrow> db_invariant d'"
  by (auto simp: insert_trade_Inr db_invariant_def)

lemma cleanup_call_is_filter:
  "\<exists>P. fst (call_cleanup_duplicate_trades arg ts) = filter P ts"
proof (cases "arg = Some False")
  case True
  then show ?thesis
    by (auto simp: call_cleanup_duplicate_trades_def cleanup_table)
next
  case False
  then have "(case arg of None \<Rightarrow> True | Some b \<Rightarrow> b) = True" by (cases arg) auto
  then have "fst (call_cleanup_duplicate_trades arg ts) = filter (\<lambda>t. True) ts"
    by (simp add: call_cleanup_duplicate_trades_def cleanup_dry_run_table)
  then show ?thesis by blast
qed

lemma run_db_statement_invariant:
  assumes "db_invariant d"
  shows "db_invariant (run_db_statement d stmt)"
proof (cases stmt)
  case (Insert_politician p)
  with assms show ?thesis
    by (auto simp: run_db_statement_def or_unchanged_def split: sum.splits
        intro: insert_politician_invariant)
next
  case (Insert_disclosure x)
  with assms show ?thesis
    by (auto simp: run_db_statement_def or_unchanged_def split: sum.splits
        intro: insert_disclosure_invariant)
next
  case (Insert_trade t)
  with assms show ?thesis
    by (auto simp: run_db_statement_def or_unchanged_def split: sum.splits
        intro: insert_trade_invariant)
next
  case (Cleanup_trades arg)
  obtain P where "fst (call_cleanup_duplicate_trades arg (trades d)) = filter P (trades d)"
    using cleanup_call_is_filter by blast
  with Cleanup_trades assms show ?thesis
    by (simp add: run_db_statement_def db_invariant_def distinct_map_filter list_all_iff)
qed

lemma run_db_statements_invariant:
  "db_invariant d \<Longrightarrow> db_invariant (run_db_statements d stmts)"
  by (induction stmts arbitrary: d) (simp_all add: run_db_statement_invariant)

lemma empty_db_invariant: "db_invariant empty_db"
  by (simp add: db_invariant_def empty_db_def)

lemma distinct_map_different:
  assumes "distinct (map f xs)" and "x \<in> set xs" and "y \<in> set xs" and "x \<noteq> y"
  shows "f x \<noteq> f y"
  using assms by (auto simp: distinct_map dest: inj_onD)

lemma distinct_map_count:
  "distinct (map f xs) \<Longrightarrow> length (filter (\<lambda>x. f x = v) xs) \<le> 1"
  by (induction xs) (force simp: filter_empty_conv image_iff)+


lemma row_hash_message_example:
  "row_hash_message (Some ''house_clerk'') (Some ''40003749'') (Some ''Apple Inc.'')
     (Some ''AAPL'') (Some ''buy'') (Some \<lparr>year = 2024, month = 1, day = 15\<rparr>)
     (Some example_amount) =
   Some (''house_clerk|40003749|Apple Inc.|AAPL|buy|2024-01-15|$1,001'' @
         [CHR 0xE2, CHR 0x80, CHR 0x93] @ ''$15,000'')"
  by code_simp

lemma example_statements_trades:
  "trades (run_db_statements empty_db example_statements) =
     [example_trade 1 1 (example_row_hash ''40003749''),
      example_trade 3 2 (example_row_hash ''40003750'')]"
  by code_simp

text \<open>
  Claim C2. In every database reached from the empty one by inserts and cleanups, two
  trades with different ids never have the same \<open>row_hash\<close>, and no hash is carried by
  more than one row. An insert whose \<open>row_hash\<close> is already in the table is rejected and
  changes nothing, so parsing a filing again adds no trade. Two trades that differ only in
  the document id they come from are hashed from different texts, and unless the digest
  collides on these two texts they have different hashes, so neither blocks the other.
\<close>

theorem trades_row_hash_globally_unique:
  "(\<forall>t1 \<in> set (trades (run_db_statements empty_db stmts)).
      \<forall>t2 \<in> set (trades (run_db_statements empty_db stmts)).
        trade_id t1 \<noteq> trade_id t2 \<longrightarrow> row_hash t1 \<noteq> row_hash t2)
   \<and> length (filter (\<lambda>t. row_hash t = h) (trades (run_db_statements empty_db stmts))) \<le> 1
   \<and> (row_hash t \<in> set (map row_hash (trades d)) \<longrightarrow>
         (\<exists>e. insert_trade d t = Inl e) \<and> run_db_statement d (Insert_trade t) = d)
   \<and> (coalesce doc1 (Some []) \<noteq> coalesce doc2 (Some []) \<longrightarrow>
         row_hash_message src doc1 asset tick sd dt amount \<noteq>
         row_hash_message src doc2 asset tick sd dt amount)
   \<and> (sql_digest dg (row_hash_message src doc1 asset tick sd dt amount) ''sha256'' \<noteq>
        sql_digest dg (row_hash_message src doc2 asset tick sd dt amount) ''sha256'' \<longrightarrow>
         generate_trade_row_hash dg src doc1 asset tick sd dt amount \<noteq>
         generate_trade_row_hash dg src doc2 asset tick sd dt amount)"
proof -
  let ?d = "run_db_statements empty_db stmts"
  have inv: "db_invariant ?d"
    using empty_db_invariant by (rule run_db_statements_invariant)
  then have ids: "distinct (map trade_id (trades ?d))"
    and hs: "distinct (map row_hash (trades ?d))"
    by (simp_all add: db_invariant_def)
  have a: "\<forall>t1 \<in> set (trades ?d). \<forall>t2 \<in> set (trades ?d).
             trade_id t1 \<noteq> trade_id t2 \<longrightarrow> row_hash t1 \<noteq> row_hash t2"
  proof (intro ballI impI)
    fix t1 t2
    assume m1: "t1 \<in> set (trades ?d)" and m2: "t2 \<in> set (trades ?d)"
      and ne: "trade_id t1 \<noteq> trade_id t2"
    from ne have "t1 \<noteq> t2" by auto
    with hs m1 m2 show "row_hash t1 \<noteq> row_hash t2"
      by (rule distinct_map_different)
  qed
  have b: "length (filter (\<lambda>t. row_hash t = h) (trades ?d)) \<le> 1"
    using hs by (rule distinct_map_count)
  have c: "row_hash t \<in> set (map row_hash (trades d)) \<longrightarrow>
         (\<exists>e. insert_trade d t = Inl e) \<and> run_db_statement d (Insert_trade t) = d"
    by (auto simp: insert_trade_def run_db_statement_def or_unchanged_def)
  show ?thesis
    using a b c messages_differ_by_document [of doc1 doc2 src asset tick sd dt amount]
      hashes_differ_by_document [of dg src doc1 asset tick sd dt amount doc2]
    by blast
qed

lemma example_trade_hash_present:
  "row_hash (example_trade 2 1 (example_row_hash ''40003749'')) \<in>
     set (map row_hash (trades (run_db_statements empty_db example_statements)))"
  by (simp add: example_statements_trades example_trade_def)

lemma example_digests_differ:
  "sql_digest example_digest
     (row_hash_message (Some ''house_clerk'') (Some ''40003749'') (Some ''Apple Inc.'')
        (Some ''AAPL'') (Some ''buy'') (Some \<lparr>year = 2024, month = 1, day = 15\<rparr>)
        (Some example_amount)) ''sha256'' \<noteq>
   sql_digest example_digest
     (row_hash_message (Some ''house_clerk'') (Some ''40003750'') (Some ''Apple Inc.'')
        (Some ''AAPL'') (Some ''buy'') (Some \<lparr>year = 2024, month = 1, day = 15\<rparr>)
        (Some example_amount)) ''sha256''"
  by (simp add: row_hash_message_eq sql_digest_def example_digest_def canonical_fields_def
      or_empty_def)

theorem trades_row_hash_globally_unique_example:
  "trades (run_db_statements empty_db example_statements) =
     [example_trade 1 1 (example_row_hash ''40003749''),
      example_trade 3 2 (example_row_hash ''40003750'')]
   \<and> length (filter (\<lambda>t. row_hash t = example_row_hash ''40003749'')
        (trades (run_db_statements empty_db example_statements))) \<le> 1
   \<and> run_db_statement (run_db_statements empty_db example_statements)
        (Insert_trade (example_trade 2 1 (example_row_hash ''40003749''))) =
      run_db_statements empty_db example_statements
   \<and> coalesce (Some ''40003749'') (Some []) \<noteq> coalesce (Some ''40003750'') (Some [])
   \<and> row_hash_message (Some ''house_clerk'') (Some ''40003749'') (Some ''Apple Inc.'')
        (Some ''AAPL'') (Some ''buy'') (Some \<lparr>year = 2024, month = 1, day = 15\<rparr>)
        (Some example_amount) \<noteq>
      row_hash_message (Some ''house_clerk'') (Some ''40003750'') (Some ''Apple Inc.'')
        (Some ''AAPL'') (Some ''buy'') (Some \<lparr>year = 2024, month = 1, day = 15\<rparr>)
        (Some example_amount)
   \<and> example_row_hash ''40003749'' \<noteq> example_row_hash ''40003750''"
proof -
  have docs: "coalesce (Some ''40003749'') (Some []) \<noteq> coalesce (Some ''40003750'') (Some [])"
    by (simp add: coalesce_def)
  note inst = trades_row_hash_globally_unique
         [where stmts = example_statements and h = "example_row_hash ''40003749''"
            and t = "example_trade 2 1 (example_row_hash ''40003749'')"
            and d = "run_db_statements empty_db example_statements"
            and ?doc1.0 = "Some ''40003749''" and ?doc2.0 = "Some ''40003750''"
            and src = "Some ''house_clerk''" and asset = "Some ''Apple Inc.''"
            and tick = "Some ''AAPL''" and sd = "Some ''buy''"
            and dt = "Some \<lparr>year = 2024, month = 1, day = 15\<rparr>"
            and amount = "Some example_amount" and dg = example_digest]
  from inst have one: "length (filter (\<lambda>t. row_hash t = example_row_hash ''40003749'')
        (trades (run_db_statements empty_db example_statements))) \<le> 1"
    by blast
  from inst example_trade_hash_present
  have rejected: "run_db_statement (run_db_statements empty_db example_statements)
        (Insert_trade (example_trade 2 1 (example_row_hash ''40003749''))) =
      run_db_statements empty_db example_statements"
    by blast
  from inst docs
  have texts: "row_hash_message (Some ''house_clerk'') (Some ''40003749'') (Some ''Apple Inc.'')
        (Some ''AAPL'') (Some ''buy'') (Some \<lparr>year = 2024, month = 1, day = 15\<rparr>)
        (Some example_amount) \<noteq>
      row_hash_message (Some ''house_clerk'') (Some ''40003750'') (Some ''Apple Inc.'')
        (Some ''AAPL'') (Some ''buy'') (Some \<lparr>year = 2024, month = 1, day = 15\<rparr>)
        (Some example_amount)"
    by blast
  from inst example_digests_differ
  have "generate_trade_row_hash example_digest (Some ''house_clerk'') (Some ''40003749'')
          (Some ''Apple Inc.'') (Some ''AAPL'') (Some ''buy'')
          (Some \<lparr>year = 2024, month = 1, day = 15\<rparr>) (Some example_amount) \<noteq>
        generate_trade_row_hash example_digest (Some ''house_clerk'') (Some ''40003750'')
          (Some ''Apple Inc.'') (Some ''AAPL'') (Some ''buy'')
          (Some \<lparr>year = 2024, month = 1, day = 15\<rparr>) (Some example_amount)"
    by blast
  then have differ: "example_row_hash ''40003749'' \<noteq> example_row_hash ''40003750''"
    unfolding example_row_hash_def .
  from example_statements_trades one rejected docs texts differ show ?thesis
    by (intro conjI)
qed

section \<open>Properties of the politicians table\<close>

text \<open>
  Two politicians with different ids and the same \<open>(full_name, state, district)\<close> are both
  accepted by the table: nothing in the schema forbids it.
\<close>

theorem politicians_tuple_not_enforced:
  "politicians (run_db_statements empty_db
      [Insert_politician (example_politician 1 (Some ''04'')),
       Insert_politician (example_politician 2 (Some ''04''))]) =
     [example_politician 1 (Some ''04''), example_politician 2 (Some ''04'')]
   \<and> p_id (example_politician 1 (Some ''04'')) \<noteq> p_id (example_politician 2 (Some ''04''))
   \<and> politician_key (example_politician 1 (Some ''04'')) =
      politician_key (example_politician 2 (Some ''04''))"
  by (simp add: run_db_statement_def or_unchanged_def insert_politician_def empty_db_def
      example_politician_def politician_key_def)

text \<open>
  Claim C4, as amended. An insert into \<open>politicians\<close> is checked against the chamber
  check, the primary key and the unique \<open>bioguide_id\<close>, and against nothing else. When the
  rows of the table have pairwise different \<open>(full_name, state, district)\<close> and a row is
  inserted only if no row has its tuple, the rows of the new table again have pairwise
  different tuples: no two ids share one.
\<close>

theorem politician_tuple_unique_by_lookup:
  "(insert_politician d p = Inr d' \<longleftrightarrow>
      d' = d\<lparr>politicians := politicians d @ [p]\<rparr>
      \<and> (chamber p = None \<or> chamber p \<in> {Some ''house'', Some ''senate''})
      \<and> p_id p \<notin> set (map p_id (politicians d))
      \<and> (bioguide_id p = None \<or> bioguide_id p \<notin> set (map bioguide_id (politicians d))))
   \<and> (distinct (map politician_key (politicians d))
       \<and> politician_key p \<notin> set (map politician_key (politicians d))
       \<and> insert_politician d p = Inr d'
       \<longrightarrow> distinct (map politician_key (politicians d'))
         \<and> (\<forall>p1 \<in> set (politicians d'). \<forall>p2 \<in> set (politicians d').
               p_id p1 \<noteq> p_id p2 \<longrightarrow> politician_key p1 \<noteq> politician_key p2))"
proof (intro conjI impI)
  show "insert_politician d p = Inr d' \<longleftrightarrow>
      d' = d\<lparr>politicians := politicians d @ [p]\<rparr>
      \<and> (chamber p = None \<or> chamber p \<in> {Some ''house'', Some ''senate''})
      \<and> p_id p \<notin> set (map p_id (politicians d))
      \<and> (bioguide_id p = None \<or> bioguide_id p \<notin> set (map bioguide_id (politicians d)))"
    by (rule insert_politician_Inr)
next
  assume a: "distinct (map politician_key (politicians d))
       \<and> politician_key p \<notin> set (map politician_key (politicians d))
       \<and> insert_politician d p = Inr d'"
  then have "politicians d' = politicians d @ [p]"
    by (simp add: insert_politician_Inr)
  with a show k: "distinct (map politician_key (politicians d'))" by simp
  show "\<forall>p1 \<in> set (politicians d'). \<forall>p2 \<in> set (politicians d').
          p_id p1 \<noteq> p_id p2 \<longrightarrow> politician_key p1 \<noteq> politician_key p2"
  proof (intro ballI impI)
    fix p1 p2
    assume m1: "p1 \<in> set (politicians d')" and m2: "p2 \<in> set (politicians d')"
      and ne: "p_id p1 \<noteq> p_id p2"
    from ne have "p1 \<noteq> p2" by auto
    with k m1 m2 show "politician_key p1 \<noteq> politician_key p2"
      by (rule distinct_map_different)
  qed
qed

theorem politician_tuple_unique_by_lookup_example:
  "distinct (map politician_key [example_politician 1 (Some ''04'')])
   \<and> politician_key (example_politician 2 (Some ''05'')) \<notin>
       set (map politician_key [example_politician 1 (Some ''04'')])
   \<and> insert_politician
        \<lparr>politicians = [example_politician 1 (Some ''04'')], disclosures = [], trades = []\<rparr>
        (example_politician 2 (Some ''05'')) =
      Inr \<lparr>politicians = [example_politician 1 (Some ''04''), example_politician 2 (Some ''05'')],
           disclosures = [], trades = []\<rparr>
   \<and> distinct (map politician_key
        [example_politician 1 (Some ''04''), example_politician 2 (Some ''05'')])"
proof -
  have ins: "insert_politician
        \<lparr>politicians = [example_politician 1 (Some ''04'')], disclosures = [], trades = []\<rparr>
        (example_politician 2 (Some ''05'')) =
      Inr \<lparr>politicians = [example_politician 1 (Some ''04''), example_politician 2 (Some ''05'')],
           disclosures = [], trades = []\<rparr>"
    by (simp add: insert_politician_def example_politician_def)
  have key: "politician_key (example_politician 2 (Some ''05'')) \<notin>
       set (map politician_key [example_politician 1 (Some ''04'')])"
    by (simp add: politician_key_def example_politician_def)
  from politician_tuple_unique_by_lookup
         [where d = "\<lparr>politicians = [example_politician 1 (Some ''04'')], disclosures = [],
                       trades = []\<rparr>"
            and p = "example_politician 2 (Some ''05'')"
            and d' = "\<lparr>politicians = [example_politician 1 (Some ''04''),
                          example_politician 2 (Some ''05'')], disclosures = [], trades = []\<rparr>"]
       ins key
  show ?thesis by simp
qed

section \<open>Properties of the politicians' columns and of the politician upsert\<close>

lemma find_Some_key:
  "find P xs = Some x \<Longrightarrow> x \<in> set xs \<and> P x"
  by (auto simp: find_Some_iff)

lemma find_None_key: "find P xs = None \<longleftrightarrow> (\<forall>x \<in> set xs. \<not> P x)"
  by (auto simp: find_None_iff)

lemma upsert_disclosure_skips:
  assumes "(pid, dd_source dd, dd_document_id dd) \<in> set (map disclosure_key (disclosures d))"
  shows "\<exists>x \<in> set (disclosures d). disclosure_key x = (pid, dd_source dd, dd_document_id dd)
           \<and> upsert_disclosure d pid dd = (d, Duplicate_skipped (d_id x))"
proof (cases "find (\<lambda>x. disclosure_key x = (pid, dd_source dd, dd_document_id dd)) (disclosures d)")
  case None
  with assms show ?thesis by (auto simp: find_None_key)
next
  case (Some x)
  then have "x \<in> set (disclosures d)"
    and "disclosure_key x = (pid, dd_source dd, dd_document_id dd)"
    by (auto dest: find_Some_key)
  with Some show ?thesis by (auto simp: upsert_disclosure_def)
qed


lemma migration_012_keeps:
  "c \<noteq> ''doc_id'' \<Longrightarrow> c \<noteq> ''filing_date'' \<Longrightarrow> c \<in> set (migration_012 cols) \<longleftrightarrow> c \<in> set cols"
  by (simp add: migration_012_def drop_column_if_exists_def)

lemma set_add_column_if_not_exists:
  "set (add_column_if_not_exists c cols) = insert c (set cols)"
  by (auto simp: add_column_if_not_exists_def)

lemma name_migrations_add_no_filing_column:
  "(''doc_id'' \<in> set (migration_add_names cols) \<longleftrightarrow> ''doc_id'' \<in> set cols)
   \<and> (''filing_date'' \<in> set (migration_add_names cols) \<longleftrightarrow> ''filing_date'' \<in> set cols)
   \<and> (''doc_id'' \<in> set (migration_add_name_components cols) \<longleftrightarrow> ''doc_id'' \<in> set cols)
   \<and> (''filing_date'' \<in> set (migration_add_name_components cols) \<longleftrightarrow>
        ''filing_date'' \<in> set cols)"
  by (simp add: migration_add_names_def migration_add_name_components_def
      set_add_column_if_not_exists)

lemma migration_008_fresh:
  "migration_008 fresh_schema_politicians =
     Inr [''id'', ''full_name'', ''chamber'', ''state'', ''district'', ''created_at'',
          ''updated_at'', ''doc_id'', ''filing_date'']"
  by code_simp

lemma migration_add_names_after_008:
  "migration_add_names
     [''id'', ''full_name'', ''chamber'', ''state'', ''district'', ''created_at'',
      ''updated_at'', ''doc_id'', ''filing_date''] =
     [''id'', ''full_name'', ''chamber'', ''state'', ''district'', ''created_at'',
      ''updated_at'', ''doc_id'', ''filing_date'', ''first_name'', ''last_name'', ''party'',
      ''bioguide_id'', ''external_ids'']"
  by code_simp

lemma migration_add_name_components_after:
  "migration_add_name_components
     [''id'', ''full_name'', ''chamber'', ''state'', ''district'', ''created_at'',
      ''updated_at'', ''doc_id'', ''filing_date'', ''first_name'', ''last_name'', ''party'',
      ''bioguide_id'', ''external_ids''] =
     [''id'', ''full_name'', ''chamber'', ''state'', ''district'', ''created_at'',
      ''updated_at'', ''doc_id'', ''filing_date'', ''first_name'', ''last_name'', ''party'',
      ''bioguide_id'', ''external_ids'', ''prefix'', ''suffix'']"
  by code_simp

lemma migration_012_after:
  "migration_012
     [''id'', ''full_name'', ''chamber'', ''state'', ''district'', ''created_at'',
      ''updated_at'', ''doc_id'', ''filing_date'', ''first_name'', ''last_name'', ''party'',
      ''bioguide_id'', ''external_ids'', ''prefix'', ''suffix''] =
     [''id'', ''full_name'', ''chamber'', ''state'', ''district'', ''created_at'',
      ''updated_at'', ''first_name'', ''last_name'', ''party'', ''bioguide_id'',
      ''external_ids'', ''prefix'', ''suffix'']"
  by code_simp












section \<open>Properties of the disclosures table\<close>

text \<open>
  Claim C3. In every database reached from the empty one by inserts and cleanups, two
  disclosures with different ids never have the same \<open>(politician_id, source, doc_id)\<close>.
  An insert whose triple is already in the table is rejected by the unique constraint and
  changes nothing; the upserter, which looks the triple up first, does not attempt the
  insert: it leaves the database as it is and reports a duplicate-skip, not a failure.
\<close>

theorem disclosures_unique_per_politician_source_document:
  "(\<forall>x1 \<in> set (disclosures (run_db_statements empty_db stmts)).
      \<forall>x2 \<in> set (disclosures (run_db_statements empty_db stmts)).
        d_id x1 \<noteq> d_id x2 \<longrightarrow> disclosure_key x1 \<noteq> disclosure_key x2)
   \<and> (disclosure_key x \<in> set (map disclosure_key (disclosures d)) \<longrightarrow>
        (\<exists>e. insert_disclosure d x = Inl e) \<and> run_db_statement d (Insert_disclosure x) = d)
   \<and> ((pid, dd_source dd, dd_document_id dd) \<in> set (map disclosure_key (disclosures d)) \<longrightarrow>
        (\<exists>i. upsert_disclosure d pid dd = (d, Duplicate_skipped i)))"
proof (intro conjI)
  let ?d = "run_db_statements empty_db stmts"
  have "db_invariant ?d"
    using empty_db_invariant by (rule run_db_statements_invariant)
  then have ks: "distinct (map disclosure_key (disclosures ?d))"
    by (simp add: db_invariant_def)
  show "\<forall>x1 \<in> set (disclosures ?d). \<forall>x2 \<in> set (disclosures ?d).
          d_id x1 \<noteq> d_id x2 \<longrightarrow> disclosure_key x1 \<noteq> disclosure_key x2"
  proof (intro ballI impI)
    fix x1 x2
    assume m1: "x1 \<in> set (disclosures ?d)" and m2: "x2 \<in> set (disclosures ?d)"
      and ne: "d_id x1 \<noteq> d_id x2"
    from ne have "x1 \<noteq> x2" by auto
    with ks m1 m2 show "disclosure_key x1 \<noteq> disclosure_key x2"
      by (rule distinct_map_different)
  qed
next
  show "disclosure_key x \<in> set (map disclosure_key (disclosures d)) \<longrightarrow>
        (\<exists>e. insert_disclosure d x = Inl e) \<and> run_db_statement d (Insert_disclosure x) = d"
    by (auto simp: insert_disclosure_def run_db_statement_def or_unchanged_def)
next
  show "(pid, dd_source dd, dd_document_id dd) \<in> set (map disclosure_key (disclosures d)) \<longrightarrow>
        (\<exists>i. upsert_disclosure d pid dd = (d, Duplicate_skipped i))"
    using upsert_disclosure_skips [of pid dd d] by blast
qed

lemma example_disclosure_statements_result:
  "disclosures (run_db_statements empty_db example_disclosure_statements) =
     [example_disclosure 1 1 ''40003749'', example_disclosure 3 1 ''40003750'']"
  by code_simp

theorem disclosures_unique_per_politician_source_document_example:
  "disclosures (run_db_statements empty_db example_disclosure_statements) =
     [example_disclosure 1 1 ''40003749'', example_disclosure 3 1 ''40003750'']
   \<and> disclosure_key (example_disclosure 2 1 ''40003749'') \<in>
       set (map disclosure_key
              (disclosures (run_db_statements empty_db example_disclosure_statements)))
   \<and> run_db_statement (run_db_statements empty_db example_disclosure_statements)
        (Insert_disclosure (example_disclosure 2 1 ''40003749'')) =
      run_db_statements empty_db example_disclosure_statements
   \<and> (\<exists>i. upsert_disclosure (run_db_statements empty_db example_disclosure_statements) 1
              (unit_disclosure example_unit) =
            (run_db_statements empty_db example_disclosure_statements, Duplicate_skipped i))"
proof -
  let ?d = "run_db_statements empty_db example_disclosure_statements"
  have k: "disclosure_key (example_disclosure 2 1 ''40003749'') \<in>
             set (map disclosure_key (disclosures ?d))"
    by (simp add: example_disclosure_statements_result disclosure_key_def example_disclosure_def)
  have k': "(1, dd_source (unit_disclosure example_unit),
             dd_document_id (unit_disclosure example_unit)) \<in>
             set (map disclosure_key (disclosures ?d))"
    by (simp add: example_disclosure_statements_result disclosure_key_def example_disclosure_def
        example_unit_def)
  note inst = disclosures_unique_per_politician_source_document
         [where stmts = example_disclosure_statements
            and x = "example_disclosure 2 1 ''40003749''" and d = ?d and pid = 1
            and dd = "unit_disclosure example_unit"]
  from inst k
  have a: "run_db_statement ?d (Insert_disclosure (example_disclosure 2 1 ''40003749'')) = ?d"
    by blast
  from inst k' have b: "\<exists>i. upsert_disclosure ?d 1 (unit_disclosure example_unit) =
                          (?d, Duplicate_skipped i)"
    by blast
  from example_disclosure_statements_result k a b show ?thesis by (intro conjI)
qed

section \<open>Properties of the pipeline\<close>




























section \<open>The scenario of the bulk row\<close>

lemma unit_of_example_line: "unit_of_line example_line = Inr example_unit"
  by code_simp

lemma ingest_example_unit_empty: "ingest_unit dg now empty_db example_unit = example_db"
  by (simp add: ingest_unit_def upsert_politician_def upsert_disclosure_def empty_db_def
      insert_politician_def insert_disclosure_def fresh_id_def example_db_def
      new_politician_def new_disclosure_def example_unit_def data_key_def
      filing_type_codes_def)

lemma ingest_example_unit_again: "ingest_unit dg now example_db example_unit = example_db"
  by (simp add: ingest_unit_def upsert_politician_def upsert_disclosure_def example_db_def
      new_politician_def new_disclosure_def example_unit_def data_key_def politician_key_def
      disclosure_key_def merge_politician_def coalesce_def)

text \<open>
  Claim C8. The row of the scenario parses and normalizes to the politician Richard Aaron
  of state MI, district 04, and to the disclosure with document id 40003749, filing type
  periodic-transaction (code P) and filing date 2025-03-24; the compound code MI04 splits
  into MI and 04. Fed to an empty database it creates one politician and one disclosure
  and no trade; fed a second time, in the same run or in a later one, it changes nothing.
\<close>

theorem bulk_row_scenario:
  "unit_of_line example_line =
     Inr \<lparr>unit_politician =
            \<lparr>pd_full_name = ''Richard Aaron'', pd_prefix = None,
             pd_first_name = Some ''Richard'', pd_last_name = Some ''Aaron'',
             pd_suffix = Some ''D'', pd_state = Some ''MI'', pd_district = Some ''04''\<rparr>,
          unit_disclosure =
            \<lparr>dd_source = ''house_clerk'', dd_document_id = ''40003749'',
             dd_filing_type = Periodic_transaction,
             dd_filed_date = Some \<lparr>year = 2025, month = 3, day = 24\<rparr>,
             dd_raw =
               [(''Prefix'', []), (''Last'', ''Aaron''), (''First'', ''Richard''),
                (''Suffix'', ''D''), (''FilingType'', ''P''), (''StateDst'', ''MI04''),
                (''Year'', ''2025''), (''FilingDate'', ''3/24/2025''),
                (''DocID'', ''40003749'')]\<rparr>,
          unit_trades = []\<rparr>
   \<and> split_state_district ''MI04'' = (Some ''MI'', Some ''04'')
   \<and> code_of_filing_kind Periodic_transaction = ''P''
   \<and> row_counts (run_bulk dg now1 empty_db [example_line]) = (1, 1, 0)
   \<and> run_bulk dg now1 empty_db [example_line, example_line] =
       run_bulk dg now1 empty_db [example_line]
   \<and> run_bulk dg now2 (run_bulk dg now1 empty_db [example_line]) [example_line] =
       run_bulk dg now1 empty_db [example_line]"
proof -
  have one: "run_bulk dg now empty_db [example_line] = example_db" for now
    by (simp add: run_bulk_def ingest_line_def unit_of_example_line ingest_example_unit_empty)
  have again: "run_bulk dg now example_db [example_line] = example_db" for now
    by (simp add: run_bulk_def ingest_line_def unit_of_example_line ingest_example_unit_again)
  have two: "run_bulk dg now empty_db [example_line, example_line] = example_db" for now
    by (simp add: run_bulk_def ingest_line_def unit_of_example_line ingest_example_unit_empty
        ingest_example_unit_again)
  have counts: "row_counts example_db = (1, 1, 0)"
    by (simp add: row_counts_def example_db_def)
  have split: "split_state_district ''MI04'' = (Some ''MI'', Some ''04'')"
    by (simp add: split_state_district_def blank_to_null_def)
  from unit_of_example_line one again two counts split show ?thesis
    by (simp add: example_unit_def)
qed

end
